theory Spec2Isabelle
  imports Complex_Main "HOL-Library.AList"
begin

section \<open>PubServerChannel: presence tracking\<close>

text \<open>
  A subscriber connection of the transport. Python keeps the connection objects in a
  \<^verbatim>\<open>set\<close>, hashed by object identity, so a connection is represented by its
  \<open>handle\<close>; \<open>client_id\<close> (the attribute \<^verbatim>\<open>id_\<close>) is what the presence callback sets (\<^verbatim>\<open>None\<close> until
  the minion id is validated).
\<close>

record client =
  handle :: nat
  client_id :: "string option"

text \<open>The two events fired on the event bus: \<^verbatim>\<open>{"new": .., "lost": ..}\<close> under the
  tag \<^verbatim>\<open>presence/change\<close> and \<^verbatim>\<open>{"present": ..}\<close> under \<^verbatim>\<open>presence/present\<close>.\<close>

datatype presence_event =
  Change "string option list" "string option list"
| Present "string option list"

text \<open>
  \<^verbatim>\<open>self.present\<close> is a dict from minion id to the set of its connections. It is an
  association list with distinct keys in insertion order, because
  \<^verbatim>\<open>list(self.present.keys())\<close> is sent out in the \<open>Present\<close> event.
\<close>

record pub_state =
  present :: "(string option \<times> nat set) list"
  presence_events :: bool
  fired :: "presence_event list"

definition init_pub :: "bool \<Rightarrow> pub_state" where
  "init_pub pe = \<lparr>present = [], presence_events = pe, fired = []\<rparr>"

definition add_client_present :: "pub_state \<Rightarrow> client \<Rightarrow> pub_state" where
  "add_client_present s c =
     (let i = client_id c in
      case map_of (present s) i of
        Some clients \<Rightarrow>
          s\<lparr>present := AList.update i (insert (handle c) clients) (present s)\<rparr>
      | None \<Rightarrow>
          (let p = AList.update i {handle c} (present s) in
           if presence_events s
           then s\<lparr>present := p,
                  fired := fired s @ [Change [i] [], Present (map fst p)]\<rparr>
           else s\<lparr>present := p\<rparr>))"

definition remove_client_present :: "pub_state \<Rightarrow> client \<Rightarrow> pub_state" where
  "remove_client_present s c =
     (let i = client_id c in
      if i = None then s
      else case map_of (present s) i of
        None \<Rightarrow> s
      | Some clients \<Rightarrow>
          if handle c \<notin> clients then s
          else (let clients' = clients - {handle c} in
                if clients' = {}
                then (let p = AList.delete i (present s) in
                      if presence_events s
                      then s\<lparr>present := p,
                             fired := fired s @ [Change [] [i], Present (map fst p)]\<rparr>
                      else s\<lparr>present := p\<rparr>)
                else s\<lparr>present := AList.update i clients' (present s)\<rparr>))"

text \<open>The callbacks the transport invokes, in the order it invokes them.\<close>

datatype presence_op = AddClient client | RemoveClient client

fun presence_step :: "pub_state \<Rightarrow> presence_op \<Rightarrow> pub_state" where
  "presence_step s (AddClient c) = add_client_present s c"
| "presence_step s (RemoveClient c) = remove_client_present s c"

definition run_presence :: "pub_state \<Rightarrow> presence_op list \<Rightarrow> pub_state" where
  "run_presence s ops = foldl presence_step s ops"

text \<open>The connections recorded under an id (none when the id is not a key).\<close>

definition clients_of :: "pub_state \<Rightarrow> string option \<Rightarrow> nat set" where
  "clients_of s i = (case map_of (present s) i of None \<Rightarrow> {} | Some cs \<Rightarrow> cs)"

definition is_present :: "pub_state \<Rightarrow> string option \<Rightarrow> bool" where
  "is_present s i = (map_of (present s) i \<noteq> None)"

definition present_ok :: "pub_state \<Rightarrow> bool" where
  "present_ok s =
     (distinct (map fst (present s)) \<and>
      (\<forall>i cs. map_of (present s) i = Some cs \<longrightarrow> cs \<noteq> {}))"

text \<open>Two connections of the same minion, used to run the callbacks on.\<close>

definition c1 :: client where "c1 = \<lparr>handle = 1, client_id = Some ''m1''\<rparr>"
definition c2 :: client where "c2 = \<lparr>handle = 2, client_id = Some ''m1''\<rparr>"


section \<open>Python values and exceptions\<close>

text \<open>
  The messages are deserialised msgpack: \<^verbatim>\<open>None\<close>, booleans, integers, floats (as
  rationals), text, bytes, lists and dicts with text keys. A dict is an association list
  in insertion order with distinct keys.
\<close>

datatype pyval =
  PNone
| PBool bool
| PInt int
| PFloat rat
| PStr string
| PBytes string
| PList "pyval list"
| PDict "(string \<times> pyval) list"

text \<open>The exception classes the channels raise or catch, by class name.\<close>

datatype exn =
  KeyError
| TypeError
| AttributeError
| ValueError
| OSError
| UnboundLocalError
| AuthenticationError
| SaltDeserializationError
| SaltValidationError
| UnsupportedAlgorithm
| InvalidKeyError
| OtherError string

text \<open>\<^verbatim>\<open>v[k]\<close> for a text key \<open>k\<close>: only a dict can be subscripted by text.\<close>

definition py_getitem :: "pyval \<Rightarrow> string \<Rightarrow> exn + pyval" where
  "py_getitem v k =
     (case v of
        PDict d \<Rightarrow> (case map_of d k of None \<Rightarrow> Inl KeyError | Some x \<Rightarrow> Inr x)
      | _ \<Rightarrow> Inl TypeError)"

text \<open>\<^verbatim>\<open>v[k] = x\<close> for a text key \<open>k\<close>.\<close>

definition py_setitem :: "pyval \<Rightarrow> string \<Rightarrow> pyval \<Rightarrow> exn + pyval" where
  "py_setitem v k x =
     (case v of
        PDict d \<Rightarrow> Inr (PDict (AList.update k x d))
      | _ \<Rightarrow> Inl TypeError)"

section \<open>String helpers\<close>

definition startswith :: "string \<Rightarrow> string \<Rightarrow> bool" where
  "startswith s p = (take (length p) s = p)"

text \<open>
  \<^verbatim>\<open>s.replace(old, new)\<close>: every non-overlapping occurrence of \<open>old\<close>, scanning from
  the left. With an empty \<open>old\<close> Python inserts \<open>new\<close> before every character and at
  the end.
\<close>

function replace_str :: "string \<Rightarrow> string \<Rightarrow> string \<Rightarrow> string" where
  "replace_str old new s =
     (if old = [] then new @ concat (map (\<lambda>c. c # new) s)
      else if s = [] then []
      else if take (length old) s = old
           then new @ replace_str old new (drop (length old) s)
           else hd s # replace_str old new (tl s))"
  by pat_completeness auto
termination
  by (relation "measure (\<lambda>(old, new, s). length s)") (auto simp: neq_Nil_conv)

declare replace_str.simps [simp del]

text \<open>\<^verbatim>\<open>s.split(c)\<close> for a one-character separator: never an empty list.\<close>

fun split_char :: "char \<Rightarrow> string \<Rightarrow> string list" where
  "split_char c [] = [] # []"
| "split_char c (x # xs) =
     (if x = c then [] # split_char c xs
      else (case split_char c xs of
              [] \<Rightarrow> [x] # []
            | y # ys \<Rightarrow> (x # y) # ys))"

section \<open>MasterPubServerChannel: event relay between cluster peers\<close>

text \<open>
  \<^verbatim>\<open>parse_cluster_tag\<close>: the peer id is the first path component after removing
  \<^verbatim>\<open>cluster/event/\<close>; the stripped tag removes \<^verbatim>\<open>cluster/event/<peer_id>/\<close>.
\<close>

definition parse_cluster_tag :: "string \<Rightarrow> string \<times> string" where
  "parse_cluster_tag tag =
     (let peer_id = (case split_char CHR ''/'' (replace_str ''cluster/event/'' [] tag) of
                       [] \<Rightarrow> [] | x # _ \<Rightarrow> x);
          stripped_tag = replace_str (''cluster/event/'' @ peer_id @ ''/'') [] tag
      in (peer_id, stripped_tag))"

text \<open>
  What the relay needs from the rest of the master, none of it part of this module:
  \<^item> \<open>opts_id\<close>: \<^verbatim>\<open>opts["id"]\<close>, this master's id;
  \<^item> \<open>master_decrypt\<close>: \<^verbatim>\<open>master_key.master_key.decrypt(aes, algorithm="OAEP-SHA224")\<close>;
  \<^item> \<open>sha256_hex\<close>: \<^verbatim>\<open>to_bytes(hashlib.sha256(key_str).hexdigest())\<close>;
  \<^item> \<open>peer_decrypt\<close>: \<^verbatim>\<open>master_key.fetch(f"peers/{peer}.pub").decrypt(sig)\<close>;
  \<^item> \<open>crypticle_loads\<close>: \<^verbatim>\<open>Crypticle(opts, key).loads(data)\<close>;
  \<^item> \<open>send_aes_key_event\<close>: the exception \<^verbatim>\<open>send_aes_key_event()\<close> raises, if any;
  \<^item> \<open>transport_publish\<close>: the exception \<^verbatim>\<open>transport.publish_payload\<close> raises, if any.
\<close>

record relay_env =
  opts_id :: string
  master_decrypt :: "pyval \<Rightarrow> exn + string"
  sha256_hex :: "string \<Rightarrow> string"
  peer_decrypt :: "pyval \<Rightarrow> pyval \<Rightarrow> exn + string"
  crypticle_loads :: "string \<Rightarrow> pyval \<Rightarrow> exn + pyval"
  send_aes_key_event :: "exn option"
  transport_publish :: "string \<times> pyval \<Rightarrow> exn option"

text \<open>
  \<^verbatim>\<open>peer_keys\<close> and \<^verbatim>\<open>auth_errors\<close> are dicts keyed by peer; each queue of
  \<^verbatim>\<open>auth_errors\<close> is a deque of \<^verbatim>\<open>(tag, data)\<close> pairs, oldest first. \<open>published\<close> is
  the list of packed events handed to the local transport, \<open>key_events\<close> counts the calls
  of \<^verbatim>\<open>send_aes_key_event\<close>.
\<close>

record relay_state =
  peer_keys :: "pyval \<rightharpoonup> string"
  auth_errors :: "pyval \<rightharpoonup> (string \<times> pyval) list"
  published :: "(string \<times> pyval) list"
  key_events :: nat

text \<open>Only immutable values hash: a list or dict as a dict key raises \<^verbatim>\<open>TypeError\<close>.\<close>

definition hashable :: "pyval \<Rightarrow> bool" where
  "hashable v = (case v of PList _ \<Rightarrow> False | PDict _ \<Rightarrow> False | _ \<Rightarrow> True)"

definition extract_cluster_event ::
  "relay_env \<Rightarrow> relay_state \<Rightarrow> string \<Rightarrow> pyval \<Rightarrow> exn + pyval" where
  "extract_cluster_event env st peer_id data =
     (case peer_keys st (PStr peer_id) of
        Some k \<Rightarrow>
          (case crypticle_loads env k data of
             Inl e \<Rightarrow> Inl e
           | Inr v \<Rightarrow>
               (case py_getitem v ''event_payload'' of
                  Inl e \<Rightarrow> Inl e
                | Inr event_data \<Rightarrow> py_setitem event_data ''__peer_id'' (PStr peer_id)))
      | None \<Rightarrow> Inl AuthenticationError)"

text \<open>
  \<^verbatim>\<open>await self.transport.publish_payload(SaltEvent.pack(tag, data))\<close>: the packed event is
  recorded as the pair it packs.
\<close>

definition publish_local ::
  "relay_env \<Rightarrow> relay_state \<Rightarrow> string \<Rightarrow> pyval \<Rightarrow> relay_state \<times> exn option" where
  "publish_local env st tag data =
     (case transport_publish env (tag, data) of
        Some e \<Rightarrow> (st, Some e)
      | None \<Rightarrow> (st\<lparr>published := published st @ [(tag, data)]\<rparr>, None))"

text \<open>
  The loop \<^verbatim>\<open>while self.auth_errors[peer]: key, data = ....popleft(); ...\<close>. The queue
  \<open>q\<close> is the rest of \<^verbatim>\<open>auth_errors[peer]\<close>, which \<open>st\<close> already holds. Each entry is
  unpacked into \<^verbatim>\<open>key, data\<close>, and the tag that is parsed is \<open>tag\<close>, the tag of the
  message being handled.
\<close>

fun drain_auth_errors ::
  "relay_env \<Rightarrow> pyval \<Rightarrow> string \<Rightarrow> (string \<times> pyval) list \<Rightarrow> relay_state
     \<Rightarrow> relay_state \<times> exn option" where
  "drain_auth_errors env peer tag [] st = (st, None)"
| "drain_auth_errors env peer tag ((key, data) # q) st =
     (let st1 = st\<lparr>auth_errors := (auth_errors st)(peer \<mapsto> q)\<rparr>;
          (peer_id, parsed_tag) = parse_cluster_tag tag
      in case extract_cluster_event env st1 peer_id data of
           Inl e \<Rightarrow>
             if e = AuthenticationError then drain_auth_errors env peer tag q st1
             else (st1, Some e)
         | Inr event_data \<Rightarrow>
             (case publish_local env st1 parsed_tag event_data of
                (st2, Some e) \<Rightarrow> (st2, Some e)
              | (st2, None) \<Rightarrow> drain_auth_errors env peer tag q st2))"

text \<open>Installing a peer's key: store it, announce our own key, drain the peer's queue.\<close>

definition install_peer_key ::
  "relay_env \<Rightarrow> relay_state \<Rightarrow> pyval \<Rightarrow> string \<Rightarrow> string \<Rightarrow> relay_state \<times> exn option" where
  "install_peer_key env st peer key_str tag =
     (let st1 = st\<lparr>peer_keys := (peer_keys st)(peer \<mapsto> key_str),
                    key_events := Suc (key_events st)\<rparr>
      in case send_aes_key_event env of
           Some e \<Rightarrow> (st1, Some e)
         | None \<Rightarrow>
             (case auth_errors st1 peer of
                None \<Rightarrow> (st1, Some KeyError)
              | Some q \<Rightarrow> drain_auth_errors env peer tag q st1))"

text \<open>The branch for a tag that starts with \<^verbatim>\<open>cluster/peer\<close>.\<close>

definition handle_peer_key ::
  "relay_env \<Rightarrow> relay_state \<Rightarrow> string \<Rightarrow> pyval \<Rightarrow> relay_state \<times> exn option" where
  "handle_peer_key env st tag data =
     (case py_getitem data ''peer_id'' of Inl e \<Rightarrow> (st, Some e) | Inr peer \<Rightarrow>
      case py_getitem data ''peers'' of Inl e \<Rightarrow> (st, Some e) | Inr peers \<Rightarrow>
      case py_getitem peers (opts_id env) of Inl e \<Rightarrow> (st, Some e) | Inr mine \<Rightarrow>
      case py_getitem mine ''aes'' of Inl e \<Rightarrow> (st, Some e) | Inr aes \<Rightarrow>
      case py_getitem mine ''sig'' of Inl e \<Rightarrow> (st, Some e) | Inr sig \<Rightarrow>
      case master_decrypt env aes of Inl e \<Rightarrow> (st, Some e) | Inr key_str \<Rightarrow>
      case peer_decrypt env peer sig of Inl e \<Rightarrow> (st, Some e) | Inr m_digest \<Rightarrow>
      if m_digest \<noteq> sha256_hex env key_str then (st, None)
      else if \<not> hashable peer then (st, Some TypeError)
      else case peer_keys st peer of
             Some old \<Rightarrow>
               if old \<noteq> key_str then install_peer_key env st peer key_str tag
               else (st, None)
           | None \<Rightarrow> install_peer_key env st peer key_str tag)"

text \<open>The branch for a tag that starts with \<^verbatim>\<open>cluster/event\<close>.\<close>

definition handle_peer_event ::
  "relay_env \<Rightarrow> relay_state \<Rightarrow> string \<Rightarrow> pyval \<Rightarrow> relay_state \<times> exn option" where
  "handle_peer_event env st tag data =
     (let (peer_id, parsed_tag) = parse_cluster_tag tag
      in case extract_cluster_event env st peer_id data of
           Inl e \<Rightarrow>
             if e = AuthenticationError
             then (case auth_errors st (PStr peer_id) of
                     None \<Rightarrow> (st, Some KeyError)
                   | Some q \<Rightarrow>
                       (st\<lparr>auth_errors :=
                              (auth_errors st)(PStr peer_id \<mapsto> q @ [(tag, data)])\<rparr>,
                        None))
             else (st, Some e)
         | Inr event_data \<Rightarrow> publish_local env st parsed_tag event_data)"

text \<open>
  \<^verbatim>\<open>handle_pool_publish\<close>. The argument is what \<^verbatim>\<open>SaltEvent.unpack(payload)\<close> gives:
  an exception or the pair \<^verbatim>\<open>(tag, data)\<close>. The whole body is inside
  \<^verbatim>\<open>try: ... except Exception\<close>, so every exception ends the call with the state reached
  so far; the function returns \<^verbatim>\<open>None\<close> on every path.
\<close>

definition handle_pool_publish ::
  "relay_env \<Rightarrow> relay_state \<Rightarrow> exn + (string \<times> pyval) \<Rightarrow> relay_state" where
  "handle_pool_publish env st unpacked =
     (case unpacked of
        Inl e \<Rightarrow> st
      | Inr (tag, data) \<Rightarrow>
          if startswith tag ''cluster/peer'' then fst (handle_peer_key env st tag data)
          else if startswith tag ''cluster/event'' then fst (handle_peer_event env st tag data)
          else st)"

text \<open>
  A stand-in for the collaborators of the relay, to run it on concrete messages: RSA
  decryption returns the bytes unchanged, a digest is the key behind a fixed prefix, and a
  Crypticle ciphertext is the dict of its key and its plaintext, so that decrypting with
  another key fails authentication.
\<close>

definition demo_relay_env :: relay_env where
  "demo_relay_env =
     \<lparr>opts_id = ''m1'',
      master_decrypt = (\<lambda>v. case v of PBytes b \<Rightarrow> Inr b | _ \<Rightarrow> Inl TypeError),
      sha256_hex = (\<lambda>s. ''sha256:'' @ s),
      peer_decrypt = (\<lambda>peer sig. case sig of PBytes b \<Rightarrow> Inr b | _ \<Rightarrow> Inl TypeError),
      crypticle_loads = (\<lambda>k d. if py_getitem d ''key'' = Inr (PBytes k)
                                then py_getitem d ''plain'' else Inl AuthenticationError),
      send_aes_key_event = None,
      transport_publish = (\<lambda>_. None)\<rparr>"

text \<open>Master \<open>m1\<close> with one configured peer \<open>m2\<close>, whose key it does not know yet.\<close>

definition relay_init :: relay_state where
  "relay_init =
     \<lparr>peer_keys = Map.empty, auth_errors = [PStr ''m2'' \<mapsto> []], published = [],
      key_events = 0\<rparr>"

text \<open>An event of \<open>m2\<close> with the tag \<^verbatim>\<open>salt/job/1\<close>, encrypted with \<open>m2\<close>'s key.\<close>

definition job_event :: "string \<times> pyval" where
  "job_event =
     (''cluster/event/m2/salt/job/1'',
      PDict [(''key'', PBytes ''k2''),
             (''plain'', PDict [(''event_payload'', PDict [(''jid'', PInt 1)])])])"

text \<open>The key exchange message of \<open>m2\<close>, carrying its key for \<open>m1\<close>.\<close>

definition key_exchange :: "string \<times> pyval" where
  "key_exchange =
     (''cluster/peer/m2'',
      PDict [(''peer_id'', PStr ''m2''),
             (''peers'', PDict [(''m1'', PDict [(''aes'', PBytes ''k2''),
                                               (''sig'', PBytes ''sha256:k2'')])])])"

section \<open>More of Python's value operations\<close>

text \<open>Booleans are integers in Python, and integers compare with floats by value.\<close>

definition py_num :: "pyval \<Rightarrow> rat option" where
  "py_num v =
     (case v of
        PBool b \<Rightarrow> Some (if b then 1 else 0)
      | PInt i \<Rightarrow> Some (of_int i)
      | PFloat r \<Rightarrow> Some r
      | _ \<Rightarrow> None)"

text \<open>
  \<^verbatim>\<open>a == b\<close>: numbers by value, everything else by structure (two dicts that differ only
  in the order of their keys are told apart here; the channels compare ids and keys).
\<close>

definition py_eq :: "pyval \<Rightarrow> pyval \<Rightarrow> bool" where
  "py_eq a b =
     (case (py_num a, py_num b) of
        (Some x, Some y) \<Rightarrow> x = y
      | _ \<Rightarrow> a = b)"

text \<open>\<^verbatim>\<open>v > n\<close> for an integer literal \<open>n\<close>: a \<^verbatim>\<open>TypeError\<close> unless \<open>v\<close> is a number.\<close>

definition py_gt :: "pyval \<Rightarrow> rat \<Rightarrow> exn + bool" where
  "py_gt v n = (case py_num v of None \<Rightarrow> Inl TypeError | Some x \<Rightarrow> Inr (x > n))"

text \<open>Truth value of a Python object.\<close>

definition py_truthy :: "pyval \<Rightarrow> bool" where
  "py_truthy v =
     (case v of
        PNone \<Rightarrow> False
      | PBool b \<Rightarrow> b
      | PInt i \<Rightarrow> i \<noteq> 0
      | PFloat r \<Rightarrow> r \<noteq> 0
      | PStr s \<Rightarrow> s \<noteq> []
      | PBytes s \<Rightarrow> s \<noteq> []
      | PList l \<Rightarrow> l \<noteq> []
      | PDict d \<Rightarrow> d \<noteq> [])"

text \<open>\<^verbatim>\<open>d.get(k, default)\<close> on a dict: the callers below only call it on dicts.\<close>

definition dict_get :: "(string \<times> pyval) list \<Rightarrow> string \<Rightarrow> pyval \<Rightarrow> pyval" where
  "dict_get d k dflt = (case map_of d k of None \<Rightarrow> dflt | Some v \<Rightarrow> v)"

text \<open>\<^verbatim>\<open>d.pop(k, None)\<close>: the value and the dict without the key.\<close>

definition dict_pop :: "(string \<times> pyval) list \<Rightarrow> string \<Rightarrow> pyval \<times> (string \<times> pyval) list" where
  "dict_pop d k = (dict_get d k PNone, AList.delete k d)"

text \<open>
  The characters \<^verbatim>\<open>str.strip()\<close> removes: Python's whitespace below code point 256
  (tab to carriage return, the four separators, space, NEL and the no-break space).
\<close>

definition is_space :: "char \<Rightarrow> bool" where
  "is_space c =
     (let n = of_char c :: nat
      in (9 \<le> n \<and> n \<le> 13) \<or> (28 \<le> n \<and> n \<le> 32) \<or> n = 133 \<or> n = 160)"

definition strip :: "string \<Rightarrow> string" where
  "strip s = rev (dropWhile is_space (rev (dropWhile is_space s)))"

text \<open>
  The bytes \<^verbatim>\<open>bytes.strip()\<close> removes: ASCII whitespace only (tab to carriage return,
  and space).
\<close>

definition is_ascii_space :: "char \<Rightarrow> bool" where
  "is_ascii_space c =
     (let n = of_char c :: nat
      in (9 \<le> n \<and> n \<le> 13) \<or> n = 32)"

definition strip_bytes :: "string \<Rightarrow> string" where
  "strip_bytes s = rev (dropWhile is_ascii_space (rev (dropWhile is_ascii_space s)))"

text \<open>\<^verbatim>\<open>v.strip()\<close>: text and bytes have the method, nothing else does.\<close>

definition py_strip :: "pyval \<Rightarrow> exn + pyval" where
  "py_strip v =
     (case v of
        PStr s \<Rightarrow> Inr (PStr (strip s))
      | PBytes s \<Rightarrow> Inr (PBytes (strip_bytes s))
      | _ \<Rightarrow> Inl AttributeError)"

text \<open>
  \<^verbatim>\<open>"\0" in v\<close>: substring test on text, element test on a list, key test on a dict; a
  \<^verbatim>\<open>TypeError\<close> on bytes (which need a bytes operand) and on everything that is not a
  container.
\<close>

definition nul :: char where
  "nul = char_of (0::nat)"

definition contains_nul :: "pyval \<Rightarrow> exn + bool" where
  "contains_nul v =
     (case v of
        PStr s \<Rightarrow> Inr (nul \<in> set s)
      | PList l \<Rightarrow> Inr (PStr [nul] \<in> set l)
      | PDict d \<Rightarrow> Inr ([nul] \<in> fst ` set d)
      | _ \<Rightarrow> Inl TypeError)"

section \<open>ReqServerChannel: configuration, collaborators and state\<close>

text \<open>
  The options the channel reads, and the functions of other modules it calls (none of them
  part of this module; each returns its value or the exception it raises):
  \<^item> \<open>valid_id\<close>: \<^verbatim>\<open>salt.utils.verify.valid_id(opts, id)\<close> on a text id. That function
    answers \<^verbatim>\<open>False\<close> for every id that is not text (it catches the \<^verbatim>\<open>TypeError\<close>),
    which \<open>valid_id_val\<close> below writes out;
  \<^item> \<open>loads\<close>, \<open>dumps\<close>: \<^verbatim>\<open>Crypticle(opts, key).loads(data)\<close> and
    \<^verbatim>\<open>.dumps(obj, nonce)\<close>;
  \<^item> \<open>gen_key\<close>: the \<open>n\<close>-th random key \<^verbatim>\<open>Crypticle.write_key\<close> and
    \<^verbatim>\<open>Crypticle.generate_key_string\<close> produce;
  \<^item> \<open>clean_join\<close>: \<^verbatim>\<open>clean_join(pki_dir, "minions", id)\<close> with the channel's pki
    directory; \<open>pubkey_from_file\<close>, \<open>pubkey_from_str\<close>: \<^verbatim>\<open>PublicKey.from_file\<close>,
    \<^verbatim>\<open>PublicKey.from_str\<close>, a key being named by a text; \<open>pub_decrypt\<close>,
    \<open>pub_encrypt\<close>: the methods of such a key;
  \<^item> \<open>payload_handler\<close>: the application handler, returning \<^verbatim>\<open>(ret, req_opts)\<close>;
  \<^item> \<open>py_str\<close>: how a value is formatted in an f-string;
  \<^item> \<open>check_autoreject\<close>, \<open>check_autosign\<close>: the \<^verbatim>\<open>AutoKey\<close> checks;
  \<^item> \<open>clean_key\<close>: \<^verbatim>\<open>salt.crypt.clean_key\<close>;
  \<^item> \<open>connected_ids\<close>: \<^verbatim>\<open>ckminions.connected_ids()\<close>;
  \<^item> \<open>payload_dumps\<close>: \<^verbatim>\<open>salt.payload.dumps\<close>;
  \<^item> \<open>master_sign\<close>, \<open>sign_key_sign\<close>, \<open>master_decrypt_tok\<close>, \<open>master_encrypt\<close>,
    \<open>master_pub_str\<close>, \<open>pubkey_signature\<close>: the methods and attributes of
    \<^verbatim>\<open>self.master_key\<close>;
  \<^item> \<open>sha256_digest\<close>: \<^verbatim>\<open>to_bytes(hashlib.sha256(aes).hexdigest())\<close>;
  \<^item> \<open>b2a_base64\<close>: \<^verbatim>\<open>binascii.b2a_base64\<close>;
  \<^item> \<open>format_token\<close>: \<^verbatim>\<open>"{}_|-{}".format(secret, mtoken)\<close>.
\<close>

record req_env =
  cluster_id :: bool
  request_server_ttl :: rat
  publish_session :: rat
  open_mode :: bool
  max_minions :: int
  auth_events :: bool
  master_sign_pubkey :: bool
  auth_mode :: int
  publish_port :: int
  con_cache :: bool
  valid_id :: "string \<Rightarrow> bool"
  loads :: "string \<Rightarrow> pyval \<Rightarrow> exn + pyval"
  dumps :: "string \<Rightarrow> pyval \<Rightarrow> pyval \<Rightarrow> exn + pyval"
  gen_key :: "nat \<Rightarrow> string"
  clean_join :: "pyval \<Rightarrow> exn + string"
  pubkey_from_file :: "string \<Rightarrow> exn + string"
  pubkey_from_str :: "pyval \<Rightarrow> exn + string"
  pub_decrypt :: "string \<Rightarrow> pyval \<Rightarrow> exn + string"
  pub_encrypt :: "string \<Rightarrow> pyval \<Rightarrow> pyval \<Rightarrow> exn + string"
  payload_handler :: "(string \<times> pyval) list \<Rightarrow> exn + (pyval \<times> pyval)"
  py_str :: "pyval \<Rightarrow> string"
  check_autoreject :: "string \<Rightarrow> bool"
  check_autosign :: "string \<Rightarrow> pyval \<Rightarrow> bool"
  clean_key :: "pyval \<Rightarrow> pyval"
  connected_ids :: "pyval list"
  payload_dumps :: "pyval \<Rightarrow> exn + string"
  master_sign :: "string \<Rightarrow> pyval \<Rightarrow> exn + string"
  sign_key_sign :: "string \<Rightarrow> pyval \<Rightarrow> exn + string"
  master_decrypt_tok :: "pyval \<Rightarrow> pyval \<Rightarrow> exn + string"
  master_encrypt :: "string \<Rightarrow> exn + string"
  master_pub_str :: string
  pubkey_signature :: "string option"
  sha256_digest :: "pyval \<Rightarrow> exn + string"
  b2a_base64 :: "string \<Rightarrow> string"
  format_token :: "string \<Rightarrow> string \<Rightarrow> string"

definition valid_id_val :: "req_env \<Rightarrow> pyval \<Rightarrow> bool" where
  "valid_id_val env v = (case v of PStr s \<Rightarrow> valid_id env s | _ \<Rightarrow> False)"

text \<open>A record of the key cache: \<^verbatim>\<open>{"pub": ..., "state": ...}\<close>.\<close>

record key_record =
  pub :: pyval
  state :: string

text \<open>
  What a call reads and writes:
  \<^item> \<open>secret_aes\<close>, \<open>secret_cluster_aes\<close>: the process-wide
    \<^verbatim>\<open>SMaster.secrets[..]["secret"].value\<close>;
  \<^item> \<open>crypticle_key\<close>: the key of \<^verbatim>\<open>self.crypticle\<close>;
  \<^item> \<open>loads_log\<close>: the decryption attempts of \<^verbatim>\<open>_decode_payload\<close>, as the list of
    the keys of the Crypticles whose \<^verbatim>\<open>loads\<close> it has called, oldest first;
  \<^item> \<open>now\<close>: \<^verbatim>\<open>time.time()\<close>;
  \<^item> \<open>sessions\<close>: \<^verbatim>\<open>self.sessions\<close>, and \<open>session_files\<close>: the key files under
    \<^verbatim>\<open>cachedir/sessions\<close> with their modification time; \<open>key_counter\<close> counts the
    random keys drawn;
  \<^item> \<open>keys\<close>, \<open>denied_keys\<close>: the two buckets of \<^verbatim>\<open>self.cache\<close>; \<open>key_stores\<close>
    counts the calls of \<^verbatim>\<open>self.cache.store("keys", ...)\<close>;
  \<^item> \<open>cached_minions\<close>: the connection cache behind \<^verbatim>\<open>self.cache_cli\<close>;
  \<^item> \<open>auth_fired\<close>: the events fired under the tag \<^verbatim>\<open>salt/auth\<close>.
\<close>

record req_state =
  secret_aes :: string
  secret_cluster_aes :: string
  crypticle_key :: string
  loads_log :: "string list"
  now :: rat
  sessions :: "string \<rightharpoonup> rat \<times> string"
  session_files :: "string \<rightharpoonup> rat \<times> string"
  key_counter :: nat
  keys :: "string \<rightharpoonup> key_record"
  key_stores :: nat
  denied_keys :: "string \<rightharpoonup> pyval list"
  cached_minions :: "pyval list"
  auth_fired :: "pyval list"

text \<open>\<^verbatim>\<open>self.cache.store("keys", id, key)\<close>.\<close>

definition store_key :: "req_state \<Rightarrow> string \<Rightarrow> key_record \<Rightarrow> req_state" where
  "store_key st i k = st\<lparr>keys := (keys st)(i \<mapsto> k), key_stores := Suc (key_stores st)\<rparr>"

text \<open>The property \<^verbatim>\<open>aes_key\<close>.\<close>

definition aes_key :: "req_env \<Rightarrow> req_state \<Rightarrow> string" where
  "aes_key env st = (if cluster_id env then secret_cluster_aes st else secret_aes st)"

text \<open>\<^verbatim>\<open>Crypticle.write_key(path)\<close>: a fresh random key in the file, written now.\<close>

definition write_key :: "req_env \<Rightarrow> req_state \<Rightarrow> string \<Rightarrow> req_state" where
  "write_key env st minion =
     st\<lparr>session_files := (session_files st)(minion \<mapsto> (now st, gen_key env (key_counter st))),
        key_counter := Suc (key_counter st)\<rparr>"

text \<open>
  The second half of \<^verbatim>\<open>session_key\<close>: rewrite the key file when it is missing or
  older than \<^verbatim>\<open>publish_session\<close>, then cache its modification time and key. (The last
  case cannot be reached: the file exists after \<open>write_key\<close>.)
\<close>

definition session_key_file :: "req_env \<Rightarrow> req_state \<Rightarrow> string \<Rightarrow> req_state \<times> (exn + string)" where
  "session_key_file env st m =
     (let st1 = (case session_files st m of
                   Some (mt, k) \<Rightarrow>
                     if now st - mt > publish_session env then write_key env st m else st
                 | None \<Rightarrow> write_key env st m)
      in case session_files st1 m of
           Some (mt, k) \<Rightarrow> (st1\<lparr>sessions := (sessions st1)(m \<mapsto> (mt, k))\<rparr>, Inr k)
         | None \<Rightarrow> (st1, Inl OSError))"

text \<open>
  \<^verbatim>\<open>session_key(minion)\<close>. An id that is not text cannot be joined to the path (or is
  unhashable): a \<^verbatim>\<open>TypeError\<close>.
\<close>

definition session_key :: "req_env \<Rightarrow> req_state \<Rightarrow> pyval \<Rightarrow> req_state \<times> (exn + string)" where
  "session_key env st minion =
     (case minion of
        PStr m \<Rightarrow>
          (case sessions st m of
             Some (t, k) \<Rightarrow>
               if now st - t < publish_session env then (st, Inr k)
               else session_key_file env st m
           | None \<Rightarrow> session_key_file env st m)
      | _ \<Rightarrow> (st, Inl TypeError))"

section \<open>ReqServerChannel: decoding and token validation\<close>

text \<open>\<^verbatim>\<open>_update_aes\<close>: replace the Crypticle when the shared secret has changed.\<close>

definition update_aes :: "req_env \<Rightarrow> req_state \<Rightarrow> req_state \<times> bool" where
  "update_aes env st =
     (if aes_key env st \<noteq> crypticle_key st
      then (st\<lparr>crypticle_key := aes_key env st\<rparr>, True)
      else (st, False))"

text \<open>
  A call of \<^verbatim>\<open>loads\<close> on a Crypticle with the key \<open>k\<close>, entered in the log of
  decryption attempts.
\<close>

definition logged_loads ::
  "req_env \<Rightarrow> req_state \<Rightarrow> string \<Rightarrow> pyval \<Rightarrow> req_state \<times> (exn + pyval)" where
  "logged_loads env st k l = (st\<lparr>loads_log := loads_log st @ [k]\<rparr>, loads env k l)"

text \<open>
  \<^verbatim>\<open>_decode_payload(payload, version)\<close>. The payload is a dict with the keys \<^verbatim>\<open>enc\<close>
  and \<^verbatim>\<open>load\<close> when \<^verbatim>\<open>handle_message\<close> calls it. Above version 2 the load is decrypted
  with the session key of the outer id; otherwise with the channel's Crypticle, and after an
  \<^verbatim>\<open>AuthenticationError\<close> once more if \<^verbatim>\<open>_update_aes\<close> installed another secret.
\<close>

definition decode_payload ::
  "req_env \<Rightarrow> req_state \<Rightarrow> (string \<times> pyval) list \<Rightarrow> pyval
     \<Rightarrow> req_state \<times> (exn + (string \<times> pyval) list)" where
  "decode_payload env st payload version =
     (case map_of payload ''enc'' of
        None \<Rightarrow> (st, Inl KeyError)
      | Some enc \<Rightarrow>
          if py_eq enc (PStr ''aes'') then
            (case py_gt version 2 of
               Inl e \<Rightarrow> (st, Inl e)
             | Inr v3 \<Rightarrow>
                 if v3 then
                   (case map_of payload ''id'' of
                      None \<Rightarrow> (st, Inl KeyError)
                    | Some idv \<Rightarrow>
                        if valid_id_val env idv then
                          (case session_key env st idv of
                             (st1, Inl e) \<Rightarrow> (st1, Inl e)
                           | (st1, Inr k) \<Rightarrow>
                               (case map_of payload ''load'' of
                                  None \<Rightarrow> (st1, Inl KeyError)
                                | Some l \<Rightarrow>
                                    (case logged_loads env st1 k l of
                                       (st2, Inl e) \<Rightarrow> (st2, Inl e)
                                     | (st2, Inr v) \<Rightarrow>
                                         (st2, Inr (AList.update ''load'' v payload)))))
                        else (st, Inl SaltDeserializationError))
                 else
                   (case map_of payload ''load'' of
                      None \<Rightarrow> (st, Inl KeyError)
                    | Some l \<Rightarrow>
                        (case logged_loads env st (crypticle_key st) l of
                           (st1, Inr v) \<Rightarrow> (st1, Inr (AList.update ''load'' v payload))
                         | (st1, Inl e) \<Rightarrow>
                             if e = AuthenticationError then
                               (case update_aes env st1 of
                                  (st2, changed) \<Rightarrow>
                                    if \<not> changed then (st2, Inl e)
                                    else (case logged_loads env st2 (crypticle_key st2) l of
                                            (st3, Inl e') \<Rightarrow> (st3, Inl e')
                                          | (st3, Inr v) \<Rightarrow>
                                              (st3, Inr (AList.update ''load'' v payload))))
                             else (st1, Inl e))))
          else (st, Inr payload))"

text \<open>
  \<^verbatim>\<open>validate_token(payload, required)\<close>. The load of the payload is a dict when
  \<^verbatim>\<open>handle_message\<close> calls it. The first statement pops \<^verbatim>\<open>tok\<close> from the load; the
  payload with the new load is the first component of the result on every path. Of the
  exceptions of the collaborators only \<^verbatim>\<open>SaltValidationError\<close>, \<^verbatim>\<open>OSError\<close> and
  \<^verbatim>\<open>ValueError\<close> are caught, each at its own call.
\<close>

definition validate_token ::
  "req_env \<Rightarrow> (string \<times> pyval) list \<Rightarrow> bool \<Rightarrow> (string \<times> pyval) list \<times> (exn + bool)" where
  "validate_token env payload required =
     (case map_of payload ''load'' of
        Some (PDict load) \<Rightarrow>
          (let (tok, load1) = dict_pop load ''tok'';
               payload1 = AList.update ''load'' (PDict load1) payload;
               idv = dict_get load1 ''id'' PNone
           in if tok \<noteq> PNone \<and> idv \<noteq> PNone then
                (case clean_join env idv of
                   Inl e \<Rightarrow>
                     if e = SaltValidationError then (payload1, Inr False)
                     else (payload1, Inl e)
                 | Inr pub_path \<Rightarrow>
                     (case pubkey_from_file env pub_path of
                        Inl e \<Rightarrow>
                          if e = OSError then (payload1, Inr False) else (payload1, Inl e)
                      | Inr pk \<Rightarrow>
                          (case pub_decrypt env pk tok of
                             Inl e \<Rightarrow>
                               if e = ValueError then (payload1, Inr False)
                               else (payload1, Inl e)
                           | Inr plain \<Rightarrow>
                               if plain \<noteq> ''salt'' then (payload1, Inr False)
                               else (payload1, Inr True))))
              else if required then (payload1, Inr False)
              else (payload1, Inr True))
      | Some _ \<Rightarrow> (payload, Inl AttributeError)
      | None \<Rightarrow> (payload, Inl KeyError))"

section \<open>ReqServerChannel: the authentication handshake\<close>

text \<open>The default algorithms \<^verbatim>\<open>salt.crypt.OAEP_SHA1\<close> and \<^verbatim>\<open>salt.crypt.PKCS1v15_SHA1\<close>.\<close>

definition OAEP_SHA1 :: pyval where
  "OAEP_SHA1 = PStr ''OAEP-SHA1''"

definition PKCS1v15_SHA1 :: pyval where
  "PKCS1v15_SHA1 = PStr ''PKCS1v15-SHA1''"

text \<open>\<^verbatim>\<open>compare_keys\<close>: equality of the two keys after \<^verbatim>\<open>clean_key\<close>.\<close>

definition compare_keys :: "req_env \<Rightarrow> pyval \<Rightarrow> pyval \<Rightarrow> bool" where
  "compare_keys env key1 key2 = py_eq (clean_key env key1) (clean_key env key2)"

text \<open>\<^verbatim>\<open>v in l\<close> for a list \<open>l\<close>.\<close>

definition py_in :: "pyval \<Rightarrow> pyval list \<Rightarrow> bool" where
  "py_in v l = list_ex (py_eq v) l"

text \<open>
  \<^verbatim>\<open>_clear_signed(load, algorithm)\<close>: the serialised load with its signature; an
  unsupported algorithm is answered in the clear, any other exception is raised.
\<close>

definition clear_signed :: "req_env \<Rightarrow> pyval \<Rightarrow> pyval \<Rightarrow> exn + pyval" where
  "clear_signed env load algorithm =
     (let bad = Inr (PDict [(''enc'', PStr ''clear''),
                            (''load'', PDict [(''ret'', PStr ''bad sig algo'')])])
      in case payload_dumps env load of
           Inl e \<Rightarrow> if e = UnsupportedAlgorithm then bad else Inl e
         | Inr tosign \<Rightarrow>
             (case master_sign env tosign algorithm of
                Inl e \<Rightarrow> if e = UnsupportedAlgorithm then bad else Inl e
              | Inr sig \<Rightarrow>
                  Inr (PDict [(''enc'', PStr ''clear''), (''load'', PBytes tosign),
                              (''sig'', PBytes sig)])))"

text \<open>
  The reply every rejecting or pending branch of \<^verbatim>\<open>_auth\<close> ends with:
  \<^verbatim>\<open>_clear_signed({"ret": r, "nonce": load["nonce"]}, sig_algo)\<close> when messages are signed,
  \<^verbatim>\<open>{"enc": "clear", "load": {"ret": r}}\<close> otherwise. A signed reply needs the nonce of
  the request: without it the subscript raises \<^verbatim>\<open>KeyError\<close>.
\<close>

definition auth_reply ::
  "req_env \<Rightarrow> (string \<times> pyval) list \<Rightarrow> bool \<Rightarrow> pyval \<Rightarrow> pyval \<Rightarrow> exn + pyval" where
  "auth_reply env load sign_messages sig_algo r =
     (if sign_messages then
        (case map_of load ''nonce'' of
           None \<Rightarrow> Inl KeyError
         | Some n \<Rightarrow> clear_signed env (PDict [(''ret'', r), (''nonce'', n)]) sig_algo)
      else Inr (PDict [(''enc'', PStr ''clear''), (''load'', PDict [(''ret'', r)])]))"

text \<open>\<^verbatim>\<open>if self.opts.get("auth_events") is True: self.event.fire_event(eload, ...)\<close>.\<close>

definition fire_auth_event :: "req_env \<Rightarrow> req_state \<Rightarrow> pyval \<Rightarrow> req_state" where
  "fire_auth_event env st eload =
     (if auth_events env then st\<lparr>auth_fired := auth_fired st @ [eload]\<rparr> else st)"

text \<open>
  \<^verbatim>\<open>if load["pub"] not in denied: denied.append(load["pub"]); self.cache.store(...)\<close>,
  with \<^verbatim>\<open>denied = self.cache.fetch("denied_keys", id) or []\<close>.
\<close>

definition record_denied :: "req_state \<Rightarrow> string \<Rightarrow> pyval \<Rightarrow> req_state" where
  "record_denied st i pubv =
     (let denied = (case denied_keys st i of None \<Rightarrow> [] | Some d \<Rightarrow> d)
      in if \<not> py_in pubv denied
         then st\<lparr>denied_keys := (denied_keys st)(i \<mapsto> denied @ [pubv])\<rparr>
         else st)"

text \<open>
  \<^verbatim>\<open>key = self.cache.fetch("keys", id)\<close> followed by the stripping of the stored key
  (of the fetched copy, not of the cache).
\<close>

definition fetch_key :: "req_state \<Rightarrow> string \<Rightarrow> exn + key_record option" where
  "fetch_key st i =
     (case keys st i of
        None \<Rightarrow> Inr None
      | Some k \<Rightarrow>
          (case py_strip (pub k) of
             Inl e \<Rightarrow> Inl e
           | Inr p \<Rightarrow> Inr (Some (k\<lparr>pub := p\<rparr>))))"

text \<open>
  The \<^verbatim>\<open>max_minions\<close> gate. The connected ids come from the connection cache when it
  is enabled, from \<^verbatim>\<open>connected_ids()\<close> otherwise. \<open>Some\<close> is the reply that ends the
  call, \<open>None\<close> lets it go on.
\<close>

definition max_minions_gate ::
  "req_env \<Rightarrow> req_state \<Rightarrow> (string \<times> pyval) list \<Rightarrow> string \<Rightarrow> pyval \<Rightarrow> bool \<Rightarrow> pyval
     \<Rightarrow> req_state \<times> (exn + pyval) option" where
  "max_minions_gate env st load i pubv sign_messages sig_algo =
     (if max_minions env > 0 then
        (let minions = (if con_cache env then cached_minions st else connected_ids env)
         in if \<not> int (length minions) \<le> max_minions env then
              if \<not> py_in (PStr i) minions then
                (let eload = PDict [(''result'', PBool False), (''act'', PStr ''full''),
                                    (''id'', PStr i), (''pub'', pubv)];
                     st1 = fire_auth_event env st eload
                 in (st1, Some (auth_reply env load sign_messages sig_algo (PStr ''full''))))
              else (st, None)
            else (st, None))
      else (st, None))"

text \<open>
  The decision of \<^verbatim>\<open>_auth\<close> on the stored key: either the call ends (\<open>Done\<close>, with its
  reply or exception), or it falls through to the accept path with the key it fetched.
\<close>

datatype auth_step =
  Done "exn + pyval"
| AcceptPath "key_record option"

text \<open>
  The \<^verbatim>\<open>if\<close>/\<^verbatim>\<open>elif\<close> chain of \<^verbatim>\<open>_auth\<close> on \<^verbatim>\<open>open_mode\<close> and the state of the
  stored key, in the order of the source: open mode, rejected, accepted, no key, pending,
  anything else. A stored record is a non-empty dict, so \<^verbatim>\<open>not key\<close> holds exactly when
  there is none.
\<close>

definition auth_decide ::
  "req_env \<Rightarrow> req_state \<Rightarrow> (string \<times> pyval) list \<Rightarrow> string \<Rightarrow> pyval \<Rightarrow> bool \<Rightarrow> pyval
     \<Rightarrow> req_state \<times> auth_step" where
  "auth_decide env st load i pubv sign_messages sig_algo =
     (let auto_reject = check_autoreject env i;
          auto_sign = check_autosign env i (dict_get load ''autosign_grains'' PNone);
          reply = auth_reply env load sign_messages sig_algo
      in case fetch_key st i of
           Inl e \<Rightarrow> (st, Done (Inl e))
         | Inr key \<Rightarrow>
             if open_mode env then (st, AcceptPath key)
             else
               (case key of
                  Some k \<Rightarrow>
                    if state k = ''rejected'' then
                      (fire_auth_event env st
                         (PDict [(''result'', PBool False), (''id'', PStr i), (''pub'', pubv)]),
                       Done (reply (PBool False)))
                    else if state k = ''accepted'' then
                      (if \<not> compare_keys env (pub k) pubv then
                         (fire_auth_event env (record_denied st i pubv)
                            (PDict [(''result'', PBool False), (''id'', PStr i),
                                    (''act'', PStr ''denied''), (''pub'', pubv)]),
                          Done (reply (PBool False)))
                       else (st, AcceptPath key))
                    else if state k = ''pending'' then
                      (if auto_reject then
                         (fire_auth_event env
                            (store_key st i (k\<lparr>state := ''rejected''\<rparr>))
                            (PDict [(''result'', PBool False), (''act'', PStr ''reject''),
                                    (''id'', PStr i), (''pub'', pubv)]),
                          Done (reply (PBool False)))
                       else if \<not> auto_sign then
                         (if \<not> compare_keys env (pub k) pubv then
                            (fire_auth_event env (record_denied st i pubv)
                               (PDict [(''result'', PBool False), (''id'', PStr i),
                                       (''act'', PStr ''denied''), (''pub'', pubv)]),
                             Done (reply (PBool False)))
                          else
                            (fire_auth_event env st
                               (PDict [(''result'', PBool True), (''act'', PStr ''pend''),
                                       (''id'', PStr i), (''pub'', pubv)]),
                             Done (reply (PBool True))))
                       else
                         (if \<not> compare_keys env (pub k) pubv then
                            (fire_auth_event env (record_denied st i pubv)
                               (PDict [(''result'', PBool False), (''id'', PStr i),
                                       (''pub'', pubv)]),
                             Done (reply (PBool False)))
                          else (st, AcceptPath key)))
                    else
                      (fire_auth_event env st
                         (PDict [(''result'', PBool False), (''id'', PStr i), (''pub'', pubv)]),
                       Done (reply (PBool False)))
                | None \<Rightarrow>
                    if auto_reject then
                      (fire_auth_event env
                         (store_key st i (\<lparr>pub = pubv, state = ''rejected''\<rparr>))
                         (PDict [(''result'', PBool False), (''act'', PStr ''reject''),
                                 (''id'', PStr i), (''pub'', pubv)]),
                       Done (reply (PBool False)))
                    else if \<not> auto_sign then
                      (fire_auth_event env
                         (store_key st i (\<lparr>pub = pubv, state = ''pending''\<rparr>))
                         (PDict [(''result'', PBool True), (''act'', PStr ''pend''),
                                 (''id'', PStr i), (''pub'', pubv)]),
                       Done (reply (PBool True)))
                    else (st, AcceptPath key)))"

text \<open>
  The start of the accept path: the key is written when it is new or not yet accepted; in
  open mode a non-empty key that differs from the stored one overwrites it, and an empty key
  ends the call (\<open>None\<close>: the caller replies \<^verbatim>\<open>ret: False\<close>).
\<close>

definition auth_store ::
  "req_env \<Rightarrow> req_state \<Rightarrow> string \<Rightarrow> pyval \<Rightarrow> key_record option
     \<Rightarrow> req_state \<times> key_record option" where
  "auth_store env st i pubv key =
     (let fresh = \<lparr>pub = pubv, state = ''accepted''\<rparr>
      in if (case key of None \<Rightarrow> True | Some k \<Rightarrow> state k \<noteq> ''accepted'') \<and> \<not> open_mode env
         then (store_key st i fresh, Some fresh)
         else if open_mode env then
           (if py_truthy pubv \<and> (case key of None \<Rightarrow> True | Some k \<Rightarrow> \<not> py_eq pubv (pub k))
            then (store_key st i fresh, Some fresh)
            else if \<not> py_truthy pubv then (st, None)
            else (st, key))
         else (st, key))"

text \<open>\<^verbatim>\<open>self.cache_cli.put_cache([id])\<close>: the id joins the connection cache.\<close>

definition put_cache :: "req_state \<Rightarrow> string \<Rightarrow> req_state" where
  "put_cache st i =
     (if py_in (PStr i) (cached_minions st) then st
      else st\<lparr>cached_minions := cached_minions st @ [PStr i]\<rparr>)"

text \<open>
  The reply under construction, \<^verbatim>\<open>ret\<close>, with the signature of the master's public key
  when \<^verbatim>\<open>master_sign_pubkey\<close> is set: the precomputed one if there is one, a fresh one
  otherwise.
\<close>

definition auth_pub_sig :: "req_env \<Rightarrow> pyval \<Rightarrow> exn + (string \<times> pyval) list" where
  "auth_pub_sig env sig_algo =
     (let ret = [(''enc'', PStr ''pub''), (''pub_key'', PStr (master_pub_str env)),
                 (''publish_port'', PInt (publish_port env))]
      in if master_sign_pubkey env then
           (case pubkey_signature env of
              Some s \<Rightarrow>
                if s \<noteq> [] then Inr (AList.update ''pub_sig'' (PStr s) ret)
                else (case sign_key_sign env (master_pub_str env) sig_algo of
                        Inl e \<Rightarrow> Inl e
                      | Inr ps \<Rightarrow> Inr (AList.update ''pub_sig'' (PBytes (b2a_base64 env ps)) ret))
            | None \<Rightarrow>
                (case sign_key_sign env (master_pub_str env) sig_algo of
                   Inl e \<Rightarrow> Inl e
                 | Inr ps \<Rightarrow> Inr (AList.update ''pub_sig'' (PBytes (b2a_base64 env ps)) ret)))
         else Inr ret)"

text \<open>
  \<^verbatim>\<open>ret["aes"] = pub.encrypt(aes, enc_algo)\<close> and
  \<^verbatim>\<open>ret["session"] = pub.encrypt(self.session_key(id), enc_algo)\<close>. The variable
  \<^verbatim>\<open>aes\<close> is \<open>None\<close> when no assignment to it has run: reading it raises
  \<^verbatim>\<open>UnboundLocalError\<close>. The result is the end of the call (\<open>Inl\<close>) or the reply so far
  with the value of \<^verbatim>\<open>aes\<close>.
\<close>

definition encrypt_secrets ::
  "req_env \<Rightarrow> req_state \<Rightarrow> string \<Rightarrow> string \<Rightarrow> pyval \<Rightarrow> (string \<times> pyval) list \<Rightarrow> pyval option
     \<Rightarrow> req_state \<times> ((exn + pyval) + (string \<times> pyval) list \<times> pyval)" where
  "encrypt_secrets env st i pk enc_algo ret aes_var =
     (case aes_var of
        None \<Rightarrow> (st, Inl (Inl UnboundLocalError))
      | Some aes \<Rightarrow>
          (case pub_encrypt env pk aes enc_algo of
             Inl e \<Rightarrow> (st, Inl (Inl e))
           | Inr c \<Rightarrow>
               (case session_key env st (PStr i) of
                  (st1, Inl e) \<Rightarrow> (st1, Inl (Inl e))
                | (st1, Inr sk) \<Rightarrow>
                    (case pub_encrypt env pk (PBytes sk) enc_algo of
                       Inl e \<Rightarrow> (st1, Inl (Inl e))
                     | Inr s \<Rightarrow>
                         (st1, Inr (AList.update ''session'' (PBytes s)
                                      (AList.update ''aes'' (PBytes c) ret), aes))))))"

text \<open>
  The two branches on \<^verbatim>\<open>auth_mode\<close>. With \<^verbatim>\<open>auth_mode >= 2\<close> and a token in the load,
  \<^verbatim>\<open>aes\<close> is assigned inside the \<^verbatim>\<open>try\<close>; when the decryption of the token raises
  anything but \<^verbatim>\<open>UnsupportedAlgorithm\<close> the exception is logged and \<^verbatim>\<open>aes\<close> stays
  unassigned.
\<close>

definition auth_secrets ::
  "req_env \<Rightarrow> req_state \<Rightarrow> (string \<times> pyval) list \<Rightarrow> string \<Rightarrow> string \<Rightarrow> pyval
     \<Rightarrow> (string \<times> pyval) list
     \<Rightarrow> req_state \<times> ((exn + pyval) + (string \<times> pyval) list \<times> pyval)" where
  "auth_secrets env st load i pk enc_algo ret =
     (let bad = Inl (Inr (PDict [(''enc'', PStr ''clear''),
                                 (''load'', PDict [(''ret'', PStr ''bad enc algo'')])]));
          own = Some (PBytes (aes_key env st))
      in if auth_mode env \<ge> 2 then
           (case map_of load ''token'' of
              Some tok \<Rightarrow>
                (case master_decrypt_tok env tok enc_algo of
                   Inr mtoken \<Rightarrow>
                     encrypt_secrets env st i pk enc_algo ret
                       (Some (PStr (format_token env (secret_aes st) mtoken)))
                 | Inl e \<Rightarrow>
                     if e = UnsupportedAlgorithm then (st, bad)
                     else encrypt_secrets env st i pk enc_algo ret None)
            | None \<Rightarrow> encrypt_secrets env st i pk enc_algo ret own)
         else
           (case map_of load ''token'' of
              Some tok \<Rightarrow>
                (case master_decrypt_tok env tok enc_algo of
                   Inl e \<Rightarrow>
                     if e = UnsupportedAlgorithm then (st, bad)
                     else encrypt_secrets env st i pk enc_algo ret own
                 | Inr mtoken \<Rightarrow>
                     (case pub_encrypt env pk (PBytes mtoken) enc_algo of
                        Inl e \<Rightarrow>
                          if e = UnsupportedAlgorithm then (st, bad)
                          else encrypt_secrets env st i pk enc_algo ret own
                      | Inr t \<Rightarrow>
                          encrypt_secrets env st i pk enc_algo
                            (AList.update ''token'' (PBytes t) ret) own))
            | None \<Rightarrow> encrypt_secrets env st i pk enc_algo ret own))"

text \<open>
  The accept path of \<^verbatim>\<open>_auth\<close>, from \<^verbatim>\<open>log.info("Authentication accepted ...")\<close> to
  the end: store the key, tell the connection cache, parse the key, build the reply, add the
  digest signature, fire the event, sign the reply when messages are signed.
\<close>

definition auth_accept ::
  "req_env \<Rightarrow> req_state \<Rightarrow> (string \<times> pyval) list \<Rightarrow> string \<Rightarrow> pyval \<Rightarrow> key_record option
     \<Rightarrow> bool \<Rightarrow> pyval \<Rightarrow> pyval \<Rightarrow> req_state \<times> (exn + pyval)" where
  "auth_accept env st load i pubv key sign_messages sig_algo enc_algo =
     (case auth_store env st i pubv key of
        (st1, None) \<Rightarrow> (st1, auth_reply env load sign_messages sig_algo (PBool False))
      | (st1, Some k) \<Rightarrow>
          (let st2 = (if con_cache env then put_cache st1 i else st1)
           in case pubkey_from_str env (pub k) of
                Inl e \<Rightarrow>
                  if e = InvalidKeyError
                  then (st2, auth_reply env load sign_messages sig_algo (PBool False))
                  else (st2, Inl e)
              | Inr pk \<Rightarrow>
                  (case auth_pub_sig env sig_algo of
                     Inl e \<Rightarrow> (st2, Inl e)
                   | Inr ret0 \<Rightarrow>
                       (case auth_secrets env st2 load i pk enc_algo ret0 of
                          (st3, Inl r) \<Rightarrow> (st3, r)
                        | (st3, Inr (ret1, aes)) \<Rightarrow>
                            (case sha256_digest env aes of
                               Inl e \<Rightarrow> (st3, Inl e)
                             | Inr digest \<Rightarrow>
                                 (case master_encrypt env digest of
                                    Inl e \<Rightarrow> (st3, Inl e)
                                  | Inr sg \<Rightarrow>
                                      (let ret2 = AList.update ''sig'' (PBytes sg) ret1;
                                           st4 = fire_auth_event env st3
                                                   (PDict [(''result'', PBool True),
                                                           (''act'', PStr ''accept''),
                                                           (''id'', PStr i), (''pub'', pubv)])
                                       in if sign_messages then
                                            (case map_of load ''nonce'' of
                                               None \<Rightarrow> (st4, Inl KeyError)
                                             | Some n \<Rightarrow>
                                                 (st4, clear_signed env
                                                         (PDict (AList.update ''nonce'' n ret2))
                                                         sig_algo))
                                          else (st4, Inr (PDict ret2)))))))))"

text \<open>
  \<^verbatim>\<open>_auth(load, sign_messages, version)\<close>. The load is a dict when \<^verbatim>\<open>handle_message\<close>
  calls it. The subscripts \<^verbatim>\<open>load["id"]\<close> and \<^verbatim>\<open>load["pub"]\<close> raise \<^verbatim>\<open>KeyError\<close>
  when the key is missing; \<^verbatim>\<open>load["pub"].strip()\<close> replaces the key of the load, and every
  later read of \<^verbatim>\<open>load["pub"]\<close> sees the stripped key \<open>pubv\<close>. The version is only
  read for a log message. (The last case cannot be reached: a valid id is text.)
\<close>

definition auth ::
  "req_env \<Rightarrow> req_state \<Rightarrow> (string \<times> pyval) list \<Rightarrow> bool \<Rightarrow> pyval
     \<Rightarrow> req_state \<times> (exn + pyval)" where
  "auth env st load sign_messages version =
     (let enc_algo = dict_get load ''enc_algo'' OAEP_SHA1;
          sig_algo = dict_get load ''sig_algo'' PKCS1v15_SHA1
      in case map_of load ''id'' of
           None \<Rightarrow> (st, Inl KeyError)
         | Some idv \<Rightarrow>
             if \<not> valid_id_val env idv
             then (st, auth_reply env load sign_messages sig_algo (PBool False))
             else
               (case idv of
                  PStr i \<Rightarrow>
                    (case map_of load ''pub'' of
                       None \<Rightarrow> (st, Inl KeyError)
                     | Some p0 \<Rightarrow>
                         (case py_strip p0 of
                            Inl e \<Rightarrow> (st, Inl e)
                          | Inr pubv \<Rightarrow>
                              (case max_minions_gate env st load i pubv sign_messages sig_algo of
                                 (st1, Some r) \<Rightarrow> (st1, r)
                               | (st1, None) \<Rightarrow>
                                   (case auth_decide env st1 load i pubv sign_messages sig_algo of
                                      (st2, Done r) \<Rightarrow> (st2, r)
                                    | (st2, AcceptPath key) \<Rightarrow>
                                        auth_accept env st2 load i pubv key sign_messages
                                          sig_algo enc_algo))))
                | _ \<Rightarrow> (st, Inl TypeError)))"

section \<open>ReqServerChannel: private replies\<close>

text \<open>
  \<^verbatim>\<open>_encrypt_private(ret, dictkey, target, nonce, sign_messages, encryption_algorithm,
  signing_algorithm)\<close>. The \<^verbatim>\<open>try\<close> block covers the generation of the one-time key, the
  fetch of the target's record and the parsing of its public key: a missing record and any
  exception there give \<^verbatim>\<open>self.crypticle.dumps({})\<close>. The statements after the block are
  not guarded. The reply dict has text keys, so a \<open>dictkey\<close> that is not text is not
  represented (a \<^verbatim>\<open>TypeError\<close> here).
\<close>

definition empty_payload :: "req_env \<Rightarrow> req_state \<Rightarrow> exn + pyval" where
  "empty_payload env st = dumps env (crypticle_key st) (PDict []) PNone"

definition encrypt_private ::
  "req_env \<Rightarrow> req_state \<Rightarrow> pyval \<Rightarrow> pyval \<Rightarrow> pyval \<Rightarrow> pyval \<Rightarrow> bool \<Rightarrow> pyval \<Rightarrow> pyval
     \<Rightarrow> req_state \<times> (exn + pyval)" where
  "encrypt_private env st ret dictkey target nonce sign_messages encryption_algorithm
       signing_algorithm =
     (let key = gen_key env (key_counter st);
          st1 = st\<lparr>key_counter := Suc (key_counter st)\<rparr>
      in case (case target of PStr t \<Rightarrow> keys st1 t | _ \<Rightarrow> None) of
           None \<Rightarrow> (st1, empty_payload env st1)
         | Some record \<Rightarrow>
             (case pubkey_from_str env (pub record) of
                Inl e \<Rightarrow> (st1, empty_payload env st1)
              | Inr pk \<Rightarrow>
                  (case pub_encrypt env pk (PBytes key) encryption_algorithm of
                     Inl e \<Rightarrow> (st1, Inl e)
                   | Inr wrapped \<Rightarrow>
                       (let pret = [(''key'', PBytes wrapped)];
                            ret1 = (if ret = PBool False then PDict [] else ret)
                        in if sign_messages then
                             (if nonce = PNone
                              then (st1, Inr (PDict [(''error'',
                                                PStr ''Nonce not included in request'')]))
                              else
                                (case payload_dumps env
                                        (PDict [(''key'', PBytes wrapped), (''pillar'', ret1),
                                                (''nonce'', nonce)]) of
                                   Inl e \<Rightarrow> (st1, Inl e)
                                 | Inr tosign \<Rightarrow>
                                     (case master_sign env tosign signing_algorithm of
                                        Inl e \<Rightarrow> (st1, Inl e)
                                      | Inr sg \<Rightarrow>
                                          (case dumps env key
                                                  (PDict [(''data'', PBytes tosign),
                                                          (''sig'', PBytes sg)]) PNone of
                                             Inl e \<Rightarrow> (st1, Inl e)
                                           | Inr c \<Rightarrow>
                                               (case dictkey of
                                                  PStr dk \<Rightarrow>
                                                    (st1, Inr (PDict (AList.update dk c pret)))
                                                | _ \<Rightarrow> (st1, Inl TypeError))))))
                           else
                             (case dumps env key ret1 PNone of
                                Inl e \<Rightarrow> (st1, Inl e)
                              | Inr c \<Rightarrow>
                                  (case dictkey of
                                     PStr dk \<Rightarrow> (st1, Inr (PDict (AList.update dk c pret)))
                                   | _ \<Rightarrow> (st1, Inl TypeError)))))))"

section \<open>ReqServerChannel: the request dispatcher\<close>

text \<open>
  \<^verbatim>\<open>handle_message\<close> up to the call of the application handler ends in one of three
  ways: it returns a reply, an exception leaves it, or it calls the handler with the decoded
  payload. \<open>Dispatch\<close> carries that payload, the local \<^verbatim>\<open>nonce\<close> (\<open>None\<close> when it was
  never assigned, which is the case for every payload whose \<^verbatim>\<open>enc\<close> is not \<^verbatim>\<open>aes\<close>)
  and the local \<^verbatim>\<open>id_\<close>.
\<close>

datatype pre_result =
  Reply pyval
| Raised exn
| Dispatch "(string \<times> pyval) list" "pyval option" pyval

definition bad_load :: pyval where
  "bad_load = PStr ''bad load''"

text \<open>
  The check of the message age, for versions above 2. The warning for an expired message
  formats \<^verbatim>\<open>payload["load"]["id"]\<close>, which raises \<^verbatim>\<open>KeyError\<close> when the load has no
  id. \<open>None\<close> lets the call go on.
\<close>

definition ttl_check :: "req_env \<Rightarrow> req_state \<Rightarrow> (string \<times> pyval) list \<Rightarrow> pre_result option" where
  "ttl_check env st load =
     (if request_server_ttl env > 0 then
        (case map_of load ''ts'' of
           None \<Rightarrow> Some (Raised KeyError)
         | Some ts \<Rightarrow>
             (case py_num ts of
                None \<Rightarrow> Some (Raised TypeError)
              | Some t \<Rightarrow>
                  if now st - t > request_server_ttl env then
                    (case map_of load ''id'' of
                       None \<Rightarrow> Some (Raised KeyError)
                     | Some _ \<Rightarrow> Some (Reply bad_load))
                  else None))
      else None)"

text \<open>
  The block \<^verbatim>\<open>if payload["enc"] == "aes":\<close> of \<^verbatim>\<open>handle_message\<close>: pop the nonce above
  version 1; above version 2 check the age, the two ids and the token (required); otherwise
  check the token if there is one.
\<close>

definition aes_checks ::
  "req_env \<Rightarrow> req_state \<Rightarrow> (string \<times> pyval) list \<Rightarrow> pyval \<Rightarrow> pyval \<Rightarrow> pre_result" where
  "aes_checks env st payload version idv =
     (case map_of payload ''load'' of
        Some (PDict load) \<Rightarrow>
          (case py_gt version 1 of
             Inl e \<Rightarrow> Raised e
           | Inr v1 \<Rightarrow>
               (let (nonce, load1) = (if v1 then dict_pop load ''nonce'' else (PNone, load));
                    payload1 = AList.update ''load'' (PDict load1) payload
                in case py_gt version 2 of
                     Inl e \<Rightarrow> Raised e
                   | Inr v2 \<Rightarrow>
                       if v2 then
                         (case ttl_check env st load1 of
                            Some r \<Rightarrow> r
                          | None \<Rightarrow>
                              (case map_of payload1 ''id'' of
                                 None \<Rightarrow> Raised KeyError
                               | Some outer \<Rightarrow>
                                   (case map_of load1 ''id'' of
                                      None \<Rightarrow> Raised KeyError
                                    | Some inner \<Rightarrow>
                                        if \<not> py_eq outer inner then Reply bad_load
                                        else if \<not> valid_id_val env inner then Reply bad_load
                                        else
                                          (case validate_token env payload1 True of
                                             (p2, Inl e) \<Rightarrow> Raised e
                                           | (p2, Inr ok) \<Rightarrow>
                                               if \<not> ok then Reply bad_load
                                               else Dispatch p2 (Some nonce) idv))))
                       else
                         (case validate_token env payload1 False of
                            (p2, Inl e) \<Rightarrow> Raised e
                          | (p2, Inr ok) \<Rightarrow>
                              if \<not> ok then Reply bad_load
                              else Dispatch p2 (Some nonce) idv)))
      | _ \<Rightarrow> Raised TypeError)"

text \<open>
  \<^verbatim>\<open>handle_message\<close> from its first line to the point where the handler is called. Every
  exception of \<^verbatim>\<open>_decode_payload\<close> is answered with \<^verbatim>\<open>bad load\<close>. The call of
  \<^verbatim>\<open>_auth\<close> and the checks of the \<^verbatim>\<open>aes\<close> block are outside every \<^verbatim>\<open>try\<close>.
\<close>

definition handle_message_pre ::
  "req_env \<Rightarrow> req_state \<Rightarrow> pyval \<Rightarrow> req_state \<times> pre_result" where
  "handle_message_pre env st msg =
     (case msg of
        PDict payload \<Rightarrow>
          if map_of payload ''enc'' = None \<or> map_of payload ''load'' = None
          then (st, Reply bad_load)
          else
            (let version = dict_get payload ''version'' (PInt 0)
             in case decode_payload env st payload version of
                  (st1, Inl e) \<Rightarrow> (st1, Reply bad_load)
                | (st1, Inr p1) \<Rightarrow>
                    (case map_of p1 ''load'' of
                       Some (PDict load) \<Rightarrow>
                         (let idv = dict_get load ''id'' (PStr [])
                          in case contains_nul idv of
                               Inl e \<Rightarrow>
                                 (st1, Reply (PStr (''bad load: id '' @ py_str env idv
                                                      @ '' is not a string'')))
                             | Inr has_nul \<Rightarrow>
                                 if has_nul
                                 then (st1, Reply (PStr ''bad load: id contains a null byte''))
                                 else
                                   (case py_gt version 1 of
                                      Inl e \<Rightarrow> (st1, Raised e)
                                    | Inr sign_messages \<Rightarrow>
                                        if py_eq (dict_get p1 ''enc'' PNone) (PStr ''clear'')
                                           \<and> py_eq (dict_get load ''cmd'' PNone) (PStr ''_auth'')
                                        then
                                          (case auth env st1 load sign_messages version of
                                             (st2, Inl e) \<Rightarrow> (st2, Raised e)
                                           | (st2, Inr r) \<Rightarrow> (st2, Reply r))
                                        else if py_eq (dict_get p1 ''enc'' PNone) (PStr ''aes'')
                                        then (st1, aes_checks env st1 p1 version idv)
                                        else (st1, Dispatch p1 None idv)))
                     | _ \<Rightarrow> (st1, Reply (PStr ''payload and load must be a dict''))))
      | _ \<Rightarrow> (st, Reply bad_load))"

text \<open>
  The rest of \<^verbatim>\<open>handle_message\<close>: the reply is encoded as \<^verbatim>\<open>req_opts["fun"]\<close> says.
  Reading \<^verbatim>\<open>nonce\<close> when it was never assigned raises \<^verbatim>\<open>UnboundLocalError\<close>.
\<close>

definition encode_reply ::
  "req_env \<Rightarrow> req_state \<Rightarrow> (string \<times> pyval) list \<Rightarrow> pyval option \<Rightarrow> pyval \<Rightarrow> pyval
     \<Rightarrow> pyval \<Rightarrow> pyval \<Rightarrow> req_state \<times> (exn + pyval)" where
  "encode_reply env st payload nonce_var idv version ret req_opts =
     (case req_opts of
        PDict ro \<Rightarrow>
          (let req_fun = dict_get ro ''fun'' (PStr ''send'')
           in if py_eq req_fun (PStr ''send_clear'') then (st, Inr ret)
              else if py_eq req_fun (PStr ''send'') then
                (case py_gt version 2 of
                   Inl e \<Rightarrow> (st, Inl e)
                 | Inr v2 \<Rightarrow>
                     if v2 then
                       (case session_key env st idv of
                          (st1, Inl e) \<Rightarrow> (st1, Inl e)
                        | (st1, Inr k) \<Rightarrow>
                            (case nonce_var of
                               None \<Rightarrow> (st1, Inl UnboundLocalError)
                             | Some nonce \<Rightarrow> (st1, dumps env k ret nonce)))
                     else
                       (case nonce_var of
                          None \<Rightarrow> (st, Inl UnboundLocalError)
                        | Some nonce \<Rightarrow> (st, dumps env (crypticle_key st) ret nonce)))
              else if py_eq req_fun (PStr ''send_private'') then
                (case map_of ro ''key'' of
                   None \<Rightarrow> (st, Inl KeyError)
                 | Some dictkey \<Rightarrow>
                     (case map_of ro ''tgt'' of
                        None \<Rightarrow> (st, Inl KeyError)
                      | Some tgt \<Rightarrow>
                          (case nonce_var of
                             None \<Rightarrow> (st, Inl UnboundLocalError)
                           | Some nonce \<Rightarrow>
                               (case py_gt version 1 of
                                  Inl e \<Rightarrow> (st, Inl e)
                                | Inr sign_messages \<Rightarrow>
                                    encrypt_private env st ret dictkey tgt nonce sign_messages
                                      (dict_get payload ''enc_algo'' OAEP_SHA1)
                                      (dict_get payload ''sig_algo'' PKCS1v15_SHA1)))))
              else (st, Inr (PStr ''Server-side exception handling payload'')))
      | _ \<Rightarrow> (st, Inl AttributeError))"

text \<open>
  \<^verbatim>\<open>handle_message(payload)\<close>: \<open>Inr\<close> is the value returned to the transport, \<open>Inl\<close>
  an exception that leaves the coroutine.
\<close>

definition handle_message :: "req_env \<Rightarrow> req_state \<Rightarrow> pyval \<Rightarrow> req_state \<times> (exn + pyval)" where
  "handle_message env st msg =
     (case handle_message_pre env st msg of
        (st1, Reply r) \<Rightarrow> (st1, Inr r)
      | (st1, Raised e) \<Rightarrow> (st1, Inl e)
      | (st1, Dispatch payload nonce_var idv) \<Rightarrow>
          (case payload_handler env payload of
             Inl e \<Rightarrow> (st1, Inr (PStr ''Some exception handling minion payload''))
           | Inr (ret, req_opts) \<Rightarrow>
               encode_reply env st1 payload nonce_var idv
                 (dict_get payload ''version'' (PInt 0)) ret req_opts))"

section \<open>A concrete master to run the request channel on\<close>

text \<open>
  Stand-ins for the collaborators, as a unit test would mock them: an id is valid when it is
  non-empty and free of slashes and NUL; a Crypticle ciphertext is the dict of its key and its
  plaintext, so that decrypting with another key fails authentication; RSA encryption knows
  the two OAEP algorithms and raises \<^verbatim>\<open>UnsupportedAlgorithm\<close> for any other; signing knows
  \<^verbatim>\<open>PKCS1v15-SHA1\<close>; a public key parses unless it is empty; the handler answers every
  request with \<^verbatim>\<open>True\<close>, to be sent in the clear.
\<close>

definition demo_env :: req_env where
  "demo_env =
     \<lparr>cluster_id = False, request_server_ttl = 0, publish_session = 86400,
      open_mode = False, max_minions = 0, auth_events = True, master_sign_pubkey = False,
      auth_mode = 1, publish_port = 4505, con_cache = False,
      valid_id = (\<lambda>s. s \<noteq> [] \<and> \<not> list_ex (\<lambda>c. c = CHR ''/'' \<or> c = nul) s),
      loads = (\<lambda>k d. if py_getitem d ''key'' = Inr (PBytes k)
                      then py_getitem d ''plain'' else Inl AuthenticationError),
      dumps = (\<lambda>k v nonce. Inr (PDict [(''key'', PBytes k), (''plain'', v)])),
      gen_key = (\<lambda>n. ''key'' @ replicate n CHR ''+''),
      clean_join = (\<lambda>v. case v of PStr s \<Rightarrow> Inr (''minions/'' @ s)
                                | _ \<Rightarrow> Inl SaltValidationError),
      pubkey_from_file = (\<lambda>path. if path = ''minions/minion1'' then Inr ''PUB1''
                                  else Inl OSError),
      pubkey_from_str = (\<lambda>v. case v of PStr s \<Rightarrow> if s = [] then Inl InvalidKeyError else Inr s
                                     | _ \<Rightarrow> Inl InvalidKeyError),
      pub_decrypt = (\<lambda>pk tok. if tok = PBytes (''tok:'' @ pk) then Inr ''salt''
                                else Inl ValueError),
      pub_encrypt = (\<lambda>pk v algo. if algo = PStr ''OAEP-SHA1'' \<or> algo = PStr ''OAEP-SHA224''
                                   then Inr (''rsa:'' @ pk) else Inl UnsupportedAlgorithm),
      payload_handler = (\<lambda>p. Inr (PBool True, PDict [(''fun'', PStr ''send_clear'')])),
      py_str = (\<lambda>v. ''?''),
      check_autoreject = (\<lambda>i. False),
      check_autosign = (\<lambda>i grains. False),
      clean_key = (\<lambda>v. v),
      connected_ids = [],
      payload_dumps = (\<lambda>v. Inr ''msgpack''),
      master_sign = (\<lambda>m algo. if algo = PStr ''PKCS1v15-SHA1'' then Inr ''sig''
                                else Inl UnsupportedAlgorithm),
      sign_key_sign = (\<lambda>m algo. if algo = PStr ''PKCS1v15-SHA1'' then Inr ''sig''
                                  else Inl UnsupportedAlgorithm),
      master_decrypt_tok = (\<lambda>tok algo. case tok of PBytes b \<Rightarrow> Inr b | _ \<Rightarrow> Inl ValueError),
      master_encrypt = (\<lambda>d. Inr (''rsa:master:'' @ d)),
      master_pub_str = ''MASTER-PUB'',
      pubkey_signature = None,
      sha256_digest = (\<lambda>v. case v of PBytes b \<Rightarrow> Inr (''sha256:'' @ b) | _ \<Rightarrow> Inl TypeError),
      b2a_base64 = (\<lambda>s. s),
      format_token = (\<lambda>s t. s @ ''_|-'' @ t)\<rparr>"

text \<open>A master that has seen no minion yet.\<close>

definition demo_st :: req_state where
  "demo_st =
     \<lparr>secret_aes = ''AES1'', secret_cluster_aes = ''CAES1'', crypticle_key = ''AES1'',
      loads_log = [], now = 1000, sessions = Map.empty, session_files = Map.empty, key_counter = 0,
      keys = Map.empty, key_stores = 0, denied_keys = Map.empty, cached_minions = [],
      auth_fired = []\<rparr>"

text \<open>The same master after the operator has accepted \<open>minion1\<close> with the key \<open>PUB1\<close>.\<close>

definition accepted_st :: req_state where
  "accepted_st = demo_st\<lparr>keys := [''minion1'' \<mapsto> \<lparr>pub = PStr ''PUB1'', state = ''accepted''\<rparr>]\<rparr>"

text \<open>An \<^verbatim>\<open>_auth\<close> request of \<open>minion1\<close> with the given public key.\<close>

definition auth_msg :: "string \<Rightarrow> string \<Rightarrow> pyval" where
  "auth_msg i k =
     PDict [(''enc'', PStr ''clear''),
            (''load'', PDict [(''cmd'', PStr ''_auth''), (''id'', PStr i), (''pub'', PStr k)])]"

text \<open>The same master with \<^verbatim>\<open>max_minions\<close> set and minions \<open>a\<close> and \<open>b\<close> connected.\<close>

definition capped_env :: "int \<Rightarrow> req_env" where
  "capped_env n = demo_env\<lparr>max_minions := n, connected_ids := [PStr ''a'', PStr ''b'']\<rparr>"

text \<open>An \<^verbatim>\<open>_auth\<close> request without a public key, and one of protocol version 2 without a
  nonce.\<close>

definition auth_msg_no_pub :: pyval where
  "auth_msg_no_pub =
     PDict [(''enc'', PStr ''clear''),
            (''load'', PDict [(''cmd'', PStr ''_auth''), (''id'', PStr ''minion1'')])]"

definition auth_msg_no_nonce :: pyval where
  "auth_msg_no_nonce =
     PDict [(''enc'', PStr ''clear''), (''version'', PInt 2),
            (''load'', PDict [(''cmd'', PStr ''_auth''), (''id'', PStr ''minion1''),
                              (''pub'', PStr ''PUB1'')])]"

text \<open>A request in the clear that is not \<^verbatim>\<open>_auth\<close> and carries a token.\<close>

definition clear_msg_with_tok :: pyval where
  "clear_msg_with_tok =
     PDict [(''enc'', PStr ''clear''),
            (''load'', PDict [(''cmd'', PStr ''ping''), (''tok'', PBytes ''x'')])]"

text \<open>
  A version 3 request of \<open>minion1\<close>, encrypted with its session key (the first key the
  master draws), whose inner id is another one and contains a NUL.
\<close>

definition v3_msg_nul_id :: pyval where
  "v3_msg_nul_id =
     PDict [(''enc'', PStr ''aes''), (''version'', PInt 3), (''id'', PStr ''minion1''),
            (''load'', PDict [(''key'', PBytes ''key''),
                              (''plain'', PDict [(''id'', PStr [CHR ''m'', nul]),
                                                 (''cmd'', PStr ''ping'')])])]"

text \<open>
  A worker whose Crypticle still holds the secret \<open>OLD\<close> after the master rotated it to
  \<open>AES1\<close>, a version 0 request encrypted with the new secret, and one encrypted with a
  secret the master never had.
\<close>

definition stale_st :: req_state where
  "stale_st = demo_st\<lparr>crypticle_key := ''OLD''\<rparr>"

definition rotated_payload :: "(string \<times> pyval) list" where
  "rotated_payload =
     [(''enc'', PStr ''aes''),
      (''load'', PDict [(''key'', PBytes ''AES1''),
                        (''plain'', PDict [(''cmd'', PStr ''ping'')])])]"

definition foreign_payload :: "(string \<times> pyval) list" where
  "foreign_payload =
     [(''enc'', PStr ''aes''),
      (''load'', PDict [(''key'', PBytes ''XXX''),
                        (''plain'', PDict [(''cmd'', PStr ''ping'')])])]"

text \<open>
  A version 0 request of \<open>minion1\<close> encrypted with the master secret and carrying a valid
  token; the same payload as \<^verbatim>\<open>_decode_payload\<close> leaves it; and as the handler receives it.
\<close>

definition aes_msg_with_tok :: pyval where
  "aes_msg_with_tok =
     PDict [(''enc'', PStr ''aes''),
            (''load'', PDict [(''key'', PBytes ''AES1''),
                              (''plain'', PDict [(''cmd'', PStr ''ping''),
                                                 (''id'', PStr ''minion1''),
                                                 (''tok'', PBytes ''tok:PUB1'')])])]"

definition decoded_payload :: "(string \<times> pyval) list" where
  "decoded_payload =
     [(''enc'', PStr ''aes''),
      (''load'', PDict [(''cmd'', PStr ''ping''), (''id'', PStr ''minion1''),
                        (''tok'', PBytes ''tok:PUB1'')])]"

definition tok_free_payload :: "(string \<times> pyval) list" where
  "tok_free_payload =
     [(''enc'', PStr ''aes''),
      (''load'', PDict [(''cmd'', PStr ''ping''), (''id'', PStr ''minion1'')])]"

text \<open>A master whose record of \<open>minion1\<close> holds an empty, unparsable public key.\<close>

definition corrupt_st :: req_state where
  "corrupt_st = demo_st\<lparr>keys := [''minion1'' \<mapsto> \<lparr>pub = PStr [], state = ''accepted''\<rparr>]\<rparr>"

text \<open>
  A version 3 request sent under the outer id \<open>minion1\<close>, encrypted with the session key
  of \<open>minion1\<close>, whose inner id is \<open>minion2\<close>.
\<close>

definition v3_payload_other_id :: "(string \<times> pyval) list" where
  "v3_payload_other_id =
     [(''enc'', PStr ''aes''), (''version'', PInt 3), (''id'', PStr ''minion1''),
      (''load'', PDict [(''key'', PBytes ''key''),
                        (''plain'', PDict [(''id'', PStr ''minion2''),
                                           (''cmd'', PStr ''ping'')])])]"

text \<open>The denied keys of an id: \<^verbatim>\<open>self.cache.fetch("denied_keys", id) or []\<close>.\<close>

definition denied_for :: "req_state \<Rightarrow> string \<Rightarrow> pyval list" where
  "denied_for st i = (case denied_keys st i of None \<Rightarrow> [] | Some d \<Rightarrow> d)"

text \<open>
  The request passes the \<^verbatim>\<open>max_minions\<close> gate: the cap is off, or fewer minions
  than the cap are connected, or the id is among them.
\<close>

definition passes_gate :: "req_env \<Rightarrow> req_state \<Rightarrow> string \<Rightarrow> bool" where
  "passes_gate env st i =
     (let minions = (if con_cache env then cached_minions st else connected_ids env)
      in max_minions env \<le> 0 \<or> int (length minions) < max_minions env
         \<or> py_in (PStr i) minions)"

text \<open>The load of an \<^verbatim>\<open>_auth\<close> request.\<close>

definition auth_load :: "string \<Rightarrow> string \<Rightarrow> (string \<times> pyval) list" where
  "auth_load i k = [(''cmd'', PStr ''_auth''), (''id'', PStr i), (''pub'', PStr k)]"

text \<open>
  What a run of \<^verbatim>\<open>_auth\<close> for the id \<open>i\<close> leaves untouched when it stores no key
  record: the key cache, the count of its stores and the shared secrets; the connection cache
  is the same or has gained \<open>i\<close>.
\<close>

definition key_frame :: "string \<Rightarrow> req_state \<Rightarrow> req_state \<Rightarrow> bool" where
  "key_frame i st st' =
     (keys st' = keys st \<and> key_stores st' = key_stores st \<and>
      secret_aes st' = secret_aes st \<and> secret_cluster_aes st' = secret_cluster_aes st \<and>
      (cached_minions st' = cached_minions st
       \<or> cached_minions st' = cached_minions st @ [PStr i]))"

text \<open>
  The body of an accept reply: \<^verbatim>\<open>enc: "pub"\<close> with the master's public key, the publish
  port, the encrypted secret and session key, and the digest signature. An accept reply in
  the clear is a dict with that body.
\<close>

definition is_accept_dict :: "(string \<times> pyval) list \<Rightarrow> bool" where
  "is_accept_dict d =
     (map_of d ''enc'' = Some (PStr ''pub'') \<and> map_of d ''pub_key'' \<noteq> None \<and>
      map_of d ''publish_port'' \<noteq> None \<and> map_of d ''aes'' \<noteq> None \<and>
      map_of d ''session'' \<noteq> None \<and> map_of d ''sig'' \<noteq> None)"

definition is_accept_reply :: "exn + pyval \<Rightarrow> bool" where
  "is_accept_reply r = (case r of Inr (PDict d) \<Rightarrow> is_accept_dict d | _ \<Rightarrow> False)"

text \<open>
  The connections that are live under an id after a sequence of callbacks, following the
  description of the presence set: a connection is live under the id it was added with from
  its add callback until a remove callback of it under that id; the remove callback of a
  client without id names no connection.
\<close>

fun live_step :: "(string option \<Rightarrow> nat set) \<Rightarrow> presence_op \<Rightarrow> (string option \<Rightarrow> nat set)" where
  "live_step L (AddClient c) = L(client_id c := insert (handle c) (L (client_id c)))"
| "live_step L (RemoveClient c) =
     (if client_id c = None then L
      else L(client_id c := L (client_id c) - {handle c}))"

definition live_handles :: "presence_op list \<Rightarrow> string option \<Rightarrow> nat set" where
  "live_handles ops = foldl live_step (\<lambda>i. {}) ops"

text \<open>A third connection, of another minion.\<close>

definition c3 :: client where "c3 = \<lparr>handle = 3, client_id = Some ''m2''\<rparr>"

text \<open>
  The same master with a handler that answers every request with a pillar for \<open>minion1\<close>,
  to be sent privately; and a version 0 request of \<open>minion1\<close> that names the
  encryption algorithm of the reply in its envelope.
\<close>

definition private_env :: req_env where
  "private_env =
     demo_env\<lparr>payload_handler :=
       (\<lambda>p. Inr (PDict [(''pillar'', PStr ''data'')],
                   PDict [(''fun'', PStr ''send_private''), (''key'', PStr ''pillar''),
                          (''tgt'', PStr ''minion1'')]))\<rparr>"

definition pillar_msg :: "string \<Rightarrow> pyval" where
  "pillar_msg algo =
     PDict [(''enc'', PStr ''aes''), (''enc_algo'', PStr algo),
            (''load'', PDict [(''key'', PBytes ''AES1''),
                              (''plain'', PDict [(''cmd'', PStr ''_pillar''),
                                                 (''id'', PStr ''minion1'')])])]"

text \<open>
  The load of an \<^verbatim>\<open>_auth\<close> request of protocol version 2, with its nonce and the
  signing algorithm it asks for; and the request.
\<close>

definition signed_auth_load :: "string \<Rightarrow> string \<Rightarrow> string \<Rightarrow> (string \<times> pyval) list" where
  "signed_auth_load i k algo =
     [(''cmd'', PStr ''_auth''), (''id'', PStr i), (''pub'', PStr k),
      (''nonce'', PStr ''n1''), (''sig_algo'', PStr algo)]"

definition signed_auth_msg :: "string \<Rightarrow> string \<Rightarrow> string \<Rightarrow> pyval" where
  "signed_auth_msg i k algo =
     PDict [(''enc'', PStr ''clear''), (''version'', PInt 2),
            (''load'', PDict (signed_auth_load i k algo))]"

text \<open>
  The load of an \<^verbatim>\<open>_auth\<close> request that carries a token, and the request, with the
  encryption algorithm it asks for.
\<close>

definition token_auth_load :: "string \<Rightarrow> string \<Rightarrow> string \<Rightarrow> (string \<times> pyval) list" where
  "token_auth_load i k algo =
     [(''cmd'', PStr ''_auth''), (''id'', PStr i), (''pub'', PStr k),
      (''token'', PBytes ''tok''), (''enc_algo'', PStr algo)]"

definition token_auth_msg :: "string \<Rightarrow> string \<Rightarrow> string \<Rightarrow> pyval" where
  "token_auth_msg i k algo =
     PDict [(''enc'', PStr ''clear''), (''load'', PDict (token_auth_load i k algo))]"

section \<open>Verified properties\<close>

subsection \<open>Presence tracking\<close>

lemma present_ok_init: "present_ok (init_pub pe)"
  by (simp add: present_ok_def init_pub_def)

lemma present_ok_add: "present_ok s \<Longrightarrow> present_ok (add_client_present s c)"
proof -
  assume ok: "present_ok s"
  have d: "distinct (map fst (present (add_client_present s c)))"
    using ok by (simp add: present_ok_def add_client_present_def Let_def distinct_update
        split: option.splits)
  have m: "map_of (present (add_client_present s c)) i = Some cs \<Longrightarrow> cs \<noteq> {}" for i cs
    using ok unfolding present_ok_def add_client_present_def Let_def
    by (cases "map_of (present s) (client_id c)")
       (auto simp del: map_of_eq_Some_iff simp add: update_conv' split: if_splits)
  show ?thesis unfolding present_ok_def using d m by blast
qed

lemma present_ok_remove: "present_ok s \<Longrightarrow> present_ok (remove_client_present s c)"
proof -
  assume ok: "present_ok s"
  have d: "distinct (map fst (present (remove_client_present s c)))"
    using ok by (simp add: present_ok_def remove_client_present_def Let_def distinct_update
        distinct_delete split: option.splits)
  have m: "map_of (present (remove_client_present s c)) i = Some cs \<Longrightarrow> cs \<noteq> {}" for i cs
    using ok unfolding present_ok_def remove_client_present_def Let_def
    by (cases "map_of (present s) (client_id c)")
       (auto simp del: map_of_eq_Some_iff simp add: update_conv' delete_conv' split: if_splits)
  show ?thesis unfolding present_ok_def using d m by blast
qed

lemma present_ok_run: "present_ok s \<Longrightarrow> present_ok (run_presence s ops)"
  unfolding run_presence_def
proof (induction ops arbitrary: s)
  case Nil then show ?case by simp
next
  case (Cons a ops)
  then show ?case by (cases a) (simp_all add: present_ok_add present_ok_remove)
qed

lemma add_existing_noop:
  "handle c \<in> clients_of s (client_id c) \<Longrightarrow> add_client_present s c = s"
  by (auto simp: clients_of_def add_client_present_def Let_def insert_absorb update_triv split: option.splits)

lemma remove_absent_noop:
  "client_id c = None \<or> handle c \<notin> clients_of s (client_id c) \<Longrightarrow> remove_client_present s c = s"
  by (auto simp: clients_of_def remove_client_present_def Let_def split: option.splits)

lemma remove_present:
  "client_id c \<noteq> None \<Longrightarrow> handle c \<in> clients_of s (client_id c) \<Longrightarrow>
   clients_of (remove_client_present s c) (client_id c) = clients_of s (client_id c) - {handle c}
   \<and> (is_present (remove_client_present s c) (client_id c) \<longleftrightarrow> clients_of s (client_id c) - {handle c} \<noteq> {})"
  by (auto simp: clients_of_def is_present_def remove_client_present_def Let_def update_conv' delete_conv' split: option.splits)

lemma remove_other:
  "j \<noteq> client_id c \<Longrightarrow> map_of (present (remove_client_present s c)) j = map_of (present s) j"
  by (auto simp: remove_client_present_def Let_def update_conv' delete_conv' split: option.splits)


lemma clients_of_add:
  "clients_of (add_client_present s c) i
     = (if i = client_id c then insert (handle c) (clients_of s i) else clients_of s i)"
  by (auto simp: clients_of_def add_client_present_def Let_def update_conv'
           split: option.splits)

lemma clients_of_remove:
  "clients_of (remove_client_present s c) i
     = (if client_id c \<noteq> None \<and> i = client_id c then clients_of s i - {handle c}
        else clients_of s i)"
  by (auto simp: clients_of_def remove_client_present_def Let_def update_conv' delete_conv'
           split: option.splits)

lemma clients_of_step:
  "clients_of (presence_step s x) = live_step (clients_of s) x"
  by (cases x) (auto simp: clients_of_add clients_of_remove fun_eq_iff)

lemma clients_of_run:
  "clients_of (run_presence s ops) = foldl live_step (clients_of s) ops"
  unfolding run_presence_def
  by (induction ops arbitrary: s) (simp_all add: clients_of_step)

lemma clients_of_init: "clients_of (init_pub pe) = (\<lambda>i. {})"
  by (simp add: clients_of_def init_pub_def fun_eq_iff)

lemma add_new_handle:
  "clients_of (add_client_present s c) (client_id c) = insert (handle c) (clients_of s (client_id c))
   \<and> is_present (add_client_present s c) (client_id c)"
  by (auto simp: clients_of_def is_present_def add_client_present_def Let_def update_conv'
           split: option.splits)

text \<open>
  Claim C7. After any sequence of add/remove callbacks, starting from the empty presence
  dict, the connections recorded under an id are exactly the live ones: those added under
  it by the sequence and not removed since. An id is a key of \<^verbatim>\<open>present\<close> exactly when
  at least one live connection is recorded under it. Adding a connection records it under
  its id and makes the id a key; adding one that is already recorded is a no-op; removing a
  connection that is not recorded (its id is \<^verbatim>\<open>None\<close>, or unknown, or the set lacks it) is
  a no-op; removing a recorded connection takes it out of the set and deletes the entry
  exactly when the set becomes empty.
\<close>

theorem presence_set_consistency:
  "(let s = run_presence (init_pub pe) ops in
     (\<forall>i. clients_of s i = live_handles ops i) \<and>
     (\<forall>i. is_present s i \<longleftrightarrow> live_handles ops i \<noteq> {}) \<and>
     (clients_of (add_client_present s c) (client_id c)
        = insert (handle c) (clients_of s (client_id c)) \<and>
      is_present (add_client_present s c) (client_id c)) \<and>
     (handle c \<in> clients_of s (client_id c) \<longrightarrow> add_client_present s c = s) \<and>
     (client_id c = None \<or> handle c \<notin> clients_of s (client_id c) \<longrightarrow>
        remove_client_present s c = s) \<and>
     (client_id c \<noteq> None \<and> handle c \<in> clients_of s (client_id c) \<longrightarrow>
        clients_of (remove_client_present s c) (client_id c)
          = clients_of s (client_id c) - {handle c} \<and>
        (is_present (remove_client_present s c) (client_id c)
          \<longleftrightarrow> clients_of s (client_id c) - {handle c} \<noteq> {})))"
proof -
  define s where "s = run_presence (init_pub pe) ops"
  have ok: "present_ok s"
    unfolding s_def by (rule present_ok_run [OF present_ok_init])
  have l: "clients_of s i = live_handles ops i" for i
    unfolding s_def live_handles_def by (simp add: clients_of_run clients_of_init)
  have a: "is_present s i \<longleftrightarrow> clients_of s i \<noteq> {}" for i
    using ok by (cases "map_of (present s) i") (simp_all add: present_ok_def is_present_def clients_of_def)
  have b: "is_present s i \<longleftrightarrow> live_handles ops i \<noteq> {}" for i
    using a [of i] l [of i] by simp
  show ?thesis
    unfolding Let_def s_def [symmetric]
    using l b add_new_handle [of s c] add_existing_noop [of c s] remove_absent_noop [of c s]
      remove_present [of c s]
    by blast
qed

text \<open>
  The theorem at a concrete run: two connections of \<open>m1\<close> and one of \<open>m2\<close> are
  added and the first one is closed.
\<close>

theorem presence_set_consistency_witness:
  "(let ops = [AddClient c1, AddClient c2, AddClient c3, RemoveClient c1];
        s = run_presence (init_pub True) ops in
     live_handles ops (Some ''m1'') = {2} \<and> live_handles ops (Some ''m2'') = {3} \<and>
     live_handles ops (Some ''m3'') = {} \<and>
     clients_of s (Some ''m1'') = {2} \<and> clients_of s (Some ''m2'') = {3} \<and>
     is_present s (Some ''m1'') \<and> is_present s (Some ''m2'') \<and> \<not> is_present s (Some ''m3'') \<and>
     handle c2 \<in> clients_of s (client_id c2) \<and> add_client_present s c2 = s \<and>
     handle c1 \<notin> clients_of s (client_id c1) \<and> remove_client_present s c1 = s \<and>
     clients_of (add_client_present s c1) (Some ''m1'') = {1, 2} \<and>
     \<not> is_present (remove_client_present s c2) (Some ''m1'') \<and>
     fired (remove_client_present s c2) =
       [Change [Some ''m1''] [], Present [Some ''m1''],
        Change [Some ''m2''] [], Present [Some ''m1'', Some ''m2''],
        Change [] [Some ''m1''], Present [Some ''m2'']])"
proof -
  define ops where "ops = [AddClient c1, AddClient c2, AddClient c3, RemoveClient c1]"
  define s where "s = run_presence (init_pub True) ops"
  have lv: "live_handles ops (Some ''m1'') = {2}" "live_handles ops (Some ''m2'') = {3}"
    "live_handles ops (Some ''m3'') = {}"
    by (simp_all add: ops_def live_handles_def c1_def c2_def c3_def insert_Diff_if)
  have c: "client_id c1 = Some ''m1''" "client_id c2 = Some ''m1''"
    "handle c1 = 1" "handle c2 = 2"
    by (simp_all add: c1_def c2_def)
  have f: "fired (remove_client_present s c2) =
       [Change [Some ''m1''] [], Present [Some ''m1''],
        Change [Some ''m2''] [], Present [Some ''m1'', Some ''m2''],
        Change [] [Some ''m1''], Present [Some ''m2'']]"
    by (simp add: s_def ops_def Let_def run_presence_def init_pub_def add_client_present_def
        remove_client_present_def c1_def c2_def c3_def insert_Diff_if)
  note t2 = presence_set_consistency [of True ops c2, unfolded Let_def, folded s_def]
  note t1 = presence_set_consistency [of True ops c1, unfolded Let_def, folded s_def]
  have cl: "clients_of s (Some ''m1'') = {2}" "clients_of s (Some ''m2'') = {3}"
    using t2 lv by simp_all
  have pr: "is_present s (Some ''m1'')" "is_present s (Some ''m2'')" "\<not> is_present s (Some ''m3'')"
    using t2 lv by simp_all
  have a2: "add_client_present s c2 = s"
    using t2 cl c by simp
  have r1: "remove_client_present s c1 = s"
    using t1 cl c by simp
  have a1: "clients_of (add_client_present s c1) (Some ''m1'') = {1, 2}"
    using t1 cl c by simp
  have r2: "\<not> is_present (remove_client_present s c2) (Some ''m1'')"
    using t2 cl c by simp
  show ?thesis
    unfolding Let_def ops_def [symmetric] s_def [symmetric]
    using lv cl pr a2 r1 a1 r2 f c by simp
qed

subsection \<open>Cluster relay\<close>

lemma parse_cluster_tag_event:
  "parse_cluster_tag ''cluster/event/m2/salt/job/1'' = (''m2'', ''salt/job/1'')"
  by code_simp

lemma parse_cluster_tag_peer:
  "parse_cluster_tag ''cluster/peer/m2'' = (''cluster'', ''cluster/peer/m2'')"
  by code_simp

text \<open>An event that arrives when the sender's key is known is republished under its own tag.\<close>

lemma event_after_key_is_published:
  "published (handle_pool_publish demo_relay_env
                (handle_pool_publish demo_relay_env relay_init (Inr key_exchange))
                (Inr job_event))
   = [(''salt/job/1'', PDict [(''jid'', PInt 1), (''__peer_id'', PStr ''m2'')])]"
  by code_simp

text \<open>
  Claim C9, evaluated on the code. The event of \<open>m2\<close> arrives before \<open>m2\<close>'s key and is
  buffered in \<open>m2\<close>'s queue. When the key exchange message of \<open>m2\<close> arrives, the key is
  installed and the queue is drained, but each buffered entry is parsed with the tag of the
  key exchange message (\<^verbatim>\<open>cluster/peer/m2\<close>) instead of its own tag: the peer id comes out
  as \<^verbatim>\<open>cluster\<close>, no key is known for it, and the event is dropped. The queue ends empty
  and nothing has been published.
\<close>

theorem buffered_event_dropped_on_drain:
  "(let st1 = handle_pool_publish demo_relay_env relay_init (Inr job_event);
        st2 = handle_pool_publish demo_relay_env st1 (Inr key_exchange)
    in auth_errors st1 (PStr ''m2'') = Some [job_event] \<and>
       published st1 = [] \<and>
       peer_keys st2 (PStr ''m2'') = Some ''k2'' \<and>
       auth_errors st2 (PStr ''m2'') = Some [] \<and>
       published st2 = [])"
  by code_simp

subsection \<open>The authentication handshake on concrete requests\<close>

text \<open>
  Claim C3, evaluated on the code. With \<^verbatim>\<open>max_minions = 2\<close> and two minions connected the
  number of connected minions is at the cap. The gate tests
  \<^verbatim>\<open>not len(minions) <= max_minions\<close>, which is false at the cap, so the request of
  the third, new minion \<open>c\<close> is not answered with \<^verbatim>\<open>full\<close>: it goes through the state machine,
  a pending key record is stored for \<open>c\<close>, and the reply is \<^verbatim>\<open>ret: True\<close>.
\<close>

theorem cap_admits_one_more:
  "snd (handle_message (capped_env 2) demo_st (auth_msg ''c'' ''PUBC''))
     = Inr (PDict [(''enc'', PStr ''clear''), (''load'', PDict [(''ret'', PBool True)])]) \<and>
   keys (fst (handle_message (capped_env 2) demo_st (auth_msg ''c'' ''PUBC''))) ''c''
     = Some \<lparr>pub = PStr ''PUBC'', state = ''pending''\<rparr> \<and>
   key_stores (fst (handle_message (capped_env 2) demo_st (auth_msg ''c'' ''PUBC''))) = 1"
  by code_simp

text \<open>Above the cap the gate does answer \<^verbatim>\<open>full\<close> and stores nothing.\<close>

lemma cap_rejects_above:
  "snd (handle_message (capped_env 1) demo_st (auth_msg ''c'' ''PUBC''))
     = Inr (PDict [(''enc'', PStr ''clear''), (''load'', PDict [(''ret'', PStr ''full'')])]) \<and>
   key_stores (fst (handle_message (capped_env 1) demo_st (auth_msg ''c'' ''PUBC''))) = 0"
  by code_simp

text \<open>
  Claim C4, evaluated on the code. An \<^verbatim>\<open>_auth\<close> request without \<^verbatim>\<open>pub\<close> makes
  \<^verbatim>\<open>load["pub"]\<close> raise \<^verbatim>\<open>KeyError\<close>, and the call of \<^verbatim>\<open>_auth\<close> in
  \<^verbatim>\<open>handle_message\<close> is outside every \<^verbatim>\<open>try\<close>: the exception leaves
  \<^verbatim>\<open>handle_message\<close>. A version 2 request without \<^verbatim>\<open>nonce\<close> does the same at
  \<^verbatim>\<open>load["nonce"]\<close>, after the pending key record has been stored.
\<close>

theorem auth_missing_field_raises:
  "snd (handle_message demo_env demo_st auth_msg_no_pub) = Inl KeyError \<and>
   snd (handle_message demo_env demo_st auth_msg_no_nonce) = Inl KeyError \<and>
   keys (fst (handle_message demo_env demo_st auth_msg_no_nonce)) ''minion1''
     = Some \<lparr>pub = PStr ''PUB1'', state = ''pending''\<rparr>"
  by code_simp

subsection \<open>Decoding with a rotated secret\<close>

lemma decode_unchanged_secret:
  assumes "map_of p ''enc'' = Some enc" "py_eq enc (PStr ''aes'')"
      "map_of p ''load'' = Some l" "py_gt v 2 = Inr False"
      "loads env (crypticle_key st) l = Inl AuthenticationError"
      "(if cluster_id env then secret_cluster_aes st else secret_aes st) = crypticle_key st"
  shows "decode_payload env st p v
           = (st\<lparr>loads_log := loads_log st @ [crypticle_key st]\<rparr>, Inl AuthenticationError)"
  using assms
  by (simp add: decode_payload_def update_aes_def logged_loads_def aes_key_def split: if_splits)

lemma decode_changed_secret:
  assumes "map_of p ''enc'' = Some enc" "py_eq enc (PStr ''aes'')"
      "map_of p ''load'' = Some l" "py_gt v 2 = Inr False"
      "loads env (crypticle_key st) l = Inl AuthenticationError"
      "s = (if cluster_id env then secret_cluster_aes st else secret_aes st)"
      "s \<noteq> crypticle_key st"
  shows "decode_payload env st p v =
           (st\<lparr>crypticle_key := s, loads_log := loads_log st @ [crypticle_key st, s]\<rparr>,
            case loads env s l of
              Inl e \<Rightarrow> Inl e
            | Inr x \<Rightarrow> Inr (AList.update ''load'' x p))"
  using assms
  by (simp add: decode_payload_def update_aes_def logged_loads_def aes_key_def
           split: sum.splits if_splits)

lemma handle_message_decode_error:
  assumes "map_of p ''enc'' = Some enc" "map_of p ''load'' = Some l"
      "decode_payload env st p (dict_get p ''version'' (PInt 0)) = (st1, Inl e)"
  shows "handle_message env st (PDict p) = (st1, Inr bad_load)"
  using assms by (simp add: handle_message_def handle_message_pre_def Let_def)

text \<open>
  Claim C5. Take a payload with \<^verbatim>\<open>enc = "aes"\<close> and a version not above 2 whose decryption
  with the cached secret fails with \<^verbatim>\<open>AuthenticationError\<close>, and let \<open>s\<close> be the shared
  master secret (the cluster secret on a cluster member). When \<open>s\<close> equals the cached
  secret, the only decryption attempt is the failed one, the error comes out of
  \<^verbatim>\<open>_decode_payload\<close> and \<^verbatim>\<open>handle_message\<close> answers \<^verbatim>\<open>bad load\<close>. When \<open>s\<close> differs,
  the Crypticle is replaced by one with the key \<open>s\<close>, exactly one more decryption is
  attempted, with \<open>s\<close>, its outcome is the outcome of \<^verbatim>\<open>_decode_payload\<close>, and if it
  fails too \<^verbatim>\<open>handle_message\<close> answers \<^verbatim>\<open>bad load\<close>.
\<close>

theorem self_heal_retry:
  assumes "map_of p ''enc'' = Some enc" and "py_eq enc (PStr ''aes'')"
      and "map_of p ''load'' = Some l"
      and "py_gt (dict_get p ''version'' (PInt 0)) 2 = Inr False"
      and "loads env (crypticle_key st) l = Inl AuthenticationError"
      and "s = (if cluster_id env then secret_cluster_aes st else secret_aes st)"
  shows "(s = crypticle_key st \<longrightarrow>
            decode_payload env st p (dict_get p ''version'' (PInt 0))
              = (st\<lparr>loads_log := loads_log st @ [crypticle_key st]\<rparr>,
                 Inl AuthenticationError) \<and>
            handle_message env st (PDict p)
              = (st\<lparr>loads_log := loads_log st @ [crypticle_key st]\<rparr>, Inr bad_load)) \<and>
         (s \<noteq> crypticle_key st \<longrightarrow>
            decode_payload env st p (dict_get p ''version'' (PInt 0))
              = (st\<lparr>crypticle_key := s,
                    loads_log := loads_log st @ [crypticle_key st, s]\<rparr>,
                 case loads env s l of
                   Inl e \<Rightarrow> Inl e
                 | Inr x \<Rightarrow> Inr (AList.update ''load'' x p)) \<and>
            (\<forall>e. loads env s l = Inl e \<longrightarrow>
                 handle_message env st (PDict p)
                   = (st\<lparr>crypticle_key := s,
                         loads_log := loads_log st @ [crypticle_key st, s]\<rparr>,
                      Inr bad_load)))"
proof (intro conjI impI allI)
  assume same: "s = crypticle_key st"
  show d: "decode_payload env st p (dict_get p ''version'' (PInt 0))
             = (st\<lparr>loads_log := loads_log st @ [crypticle_key st]\<rparr>, Inl AuthenticationError)"
    using assms(1-5) same unfolding assms(6) by (rule decode_unchanged_secret)
  show "handle_message env st (PDict p)
          = (st\<lparr>loads_log := loads_log st @ [crypticle_key st]\<rparr>, Inr bad_load)"
    using assms(1,3) d by (rule handle_message_decode_error)
next
  assume diff: "s \<noteq> crypticle_key st"
  show d: "decode_payload env st p (dict_get p ''version'' (PInt 0))
              = (st\<lparr>crypticle_key := s,
                    loads_log := loads_log st @ [crypticle_key st, s]\<rparr>,
                 case loads env s l of
                   Inl e \<Rightarrow> Inl e
                 | Inr x \<Rightarrow> Inr (AList.update ''load'' x p))"
    using assms diff by (rule decode_changed_secret)
  fix e assume "loads env s l = Inl e"
  with d have "decode_payload env st p (dict_get p ''version'' (PInt 0))
              = (st\<lparr>crypticle_key := s,
                    loads_log := loads_log st @ [crypticle_key st, s]\<rparr>, Inl e)"
    by simp
  with assms(1,3) show "handle_message env st (PDict p)
                   = (st\<lparr>crypticle_key := s,
                         loads_log := loads_log st @ [crypticle_key st, s]\<rparr>,
                      Inr bad_load)"
    by (rule handle_message_decode_error)
qed

text \<open>
  The theorem on the stale worker (one retry, with the rotated secret, which succeeds) and
  on a request encrypted with a foreign secret (no retry, \<^verbatim>\<open>bad load\<close>).
\<close>

theorem self_heal_retry_witness:
  "loads demo_env (crypticle_key stale_st) (PDict [(''key'', PBytes ''AES1''),
        (''plain'', PDict [(''cmd'', PStr ''ping'')])]) = Inl AuthenticationError \<and>
   secret_aes stale_st \<noteq> crypticle_key stale_st \<and>
   decode_payload demo_env stale_st rotated_payload (PInt 0)
     = (stale_st\<lparr>crypticle_key := ''AES1'', loads_log := [''OLD'', ''AES1'']\<rparr>,
        Inr [(''enc'', PStr ''aes''), (''load'', PDict [(''cmd'', PStr ''ping'')])]) \<and>
   secret_aes demo_st = crypticle_key demo_st \<and>
   handle_message demo_env demo_st (PDict foreign_payload)
     = (demo_st\<lparr>loads_log := [''AES1'']\<rparr>, Inr bad_load)"
proof -
  let ?l = "PDict [(''key'', PBytes ''AES1''), (''plain'', PDict [(''cmd'', PStr ''ping'')])]"
  let ?f = "PDict [(''key'', PBytes ''XXX''), (''plain'', PDict [(''cmd'', PStr ''ping'')])]"
  have e: "map_of rotated_payload ''enc'' = Some (PStr ''aes'')"
          "map_of foreign_payload ''enc'' = Some (PStr ''aes'')"
    by (simp_all add: rotated_payload_def foreign_payload_def)
  have q: "py_eq (PStr ''aes'') (PStr ''aes'')"
    by (simp add: py_eq_def py_num_def)
  have l: "map_of rotated_payload ''load'' = Some ?l" "map_of foreign_payload ''load'' = Some ?f"
    by (simp_all add: rotated_payload_def foreign_payload_def)
  have v: "py_gt (dict_get rotated_payload ''version'' (PInt 0)) 2 = Inr False"
          "py_gt (dict_get foreign_payload ''version'' (PInt 0)) 2 = Inr False"
    by (simp_all add: rotated_payload_def foreign_payload_def dict_get_def py_gt_def py_num_def)
  have v0: "dict_get rotated_payload ''version'' (PInt 0) = PInt 0"
    by (simp add: rotated_payload_def dict_get_def)
  have a: "loads demo_env (crypticle_key stale_st) ?l = Inl AuthenticationError"
          "loads demo_env (crypticle_key demo_st) ?f = Inl AuthenticationError"
    by (simp_all add: demo_env_def stale_st_def demo_st_def py_getitem_def)
  have s: "''AES1'' = (if cluster_id demo_env then secret_cluster_aes stale_st
                       else secret_aes stale_st)"
          "''AES1'' = (if cluster_id demo_env then secret_cluster_aes demo_st
                       else secret_aes demo_st)"
    by (simp_all add: demo_env_def stale_st_def demo_st_def)
  have k: "secret_aes stale_st \<noteq> crypticle_key stale_st"
          "secret_aes demo_st = crypticle_key demo_st"
          "crypticle_key stale_st = ''OLD''" "crypticle_key demo_st = ''AES1''"
          "loads_log stale_st = []" "loads_log demo_st = []"
          "secret_aes stale_st = ''AES1''"
    by (simp_all add: stale_st_def demo_st_def)
  have r: "loads demo_env ''AES1'' ?l = Inr (PDict [(''cmd'', PStr ''ping'')])"
    by (simp add: demo_env_def py_getitem_def)
  have u: "AList.update ''load'' (PDict [(''cmd'', PStr ''ping'')]) rotated_payload
             = [(''enc'', PStr ''aes''), (''load'', PDict [(''cmd'', PStr ''ping'')])]"
    by (simp add: rotated_payload_def)
  from self_heal_retry [OF e(1) q l(1) v(1) a(1) s(1)]
  have "decode_payload demo_env stale_st rotated_payload (PInt 0)
     = (stale_st\<lparr>crypticle_key := ''AES1'', loads_log := [''OLD'', ''AES1'']\<rparr>,
        Inr [(''enc'', PStr ''aes''), (''load'', PDict [(''cmd'', PStr ''ping'')])])"
    by (simp add: v0 k r u)
  moreover from self_heal_retry [OF e(2) q l(2) v(2) a(2) s(2)]
  have "handle_message demo_env demo_st (PDict foreign_payload)
          = (demo_st\<lparr>loads_log := [''AES1'']\<rparr>, Inr bad_load)"
    by (simp add: k)
  ultimately show ?thesis using a(1) k(1,2) by simp
qed

subsection \<open>The token never reaches the handler of an encrypted request\<close>

lemma validate_token_pops:
  assumes "map_of payload ''load'' = Some (PDict load)"
  shows "fst (validate_token env payload required)
           = AList.update ''load'' (PDict (AList.delete ''tok'' load)) payload"
  using assms
  by (simp add: validate_token_def dict_pop_def Let_def split: sum.splits)

lemma popped_load_has_no_tok:
  assumes "map_of payload ''load'' = Some (PDict load)"
  shows "\<exists>l. map_of (fst (validate_token env payload required)) ''load'' = Some (PDict l)
             \<and> map_of l ''tok'' = None"
  using validate_token_pops [OF assms, of env required]
  by (simp add: update_conv' delete_conv')

lemma ttl_check_no_dispatch: "ttl_check env st l \<noteq> Some (Dispatch p n i)"
  by (simp add: ttl_check_def split: option.splits)

lemma aes_checks_dispatch:
  assumes "aes_checks env st payload version idv = Dispatch p n i"
  shows "\<exists>l. map_of p ''load'' = Some (PDict l) \<and> map_of l ''tok'' = None"
proof -
  obtain load where L: "map_of payload ''load'' = Some (PDict load)"
    using assms by (auto simp: aes_checks_def split: option.splits pyval.splits)
  obtain v1 where V1: "py_gt version 1 = Inr v1"
    using assms L by (auto simp: aes_checks_def split: sum.splits)
  define load1 where "load1 = (if v1 then snd (dict_pop load ''nonce'') else load)"
  define payload1 where "payload1 = AList.update ''load'' (PDict load1) payload"
  have P1: "map_of payload1 ''load'' = Some (PDict load1)"
    by (simp add: payload1_def update_conv')
  have "\<exists>r. p = fst (validate_token env payload1 r)"
    using assms L V1 ttl_check_no_dispatch [of env st _ p n i]
    unfolding aes_checks_def payload1_def load1_def
    by (auto simp: Let_def dict_pop_def split: sum.splits if_splits option.splits prod.splits
             intro: exI [where x = True] exI [where x = False])
  then obtain r where "p = fst (validate_token env payload1 r)" ..
  with popped_load_has_no_tok [OF P1, of env r] show ?thesis by simp
qed


lemma pre_dispatch_aes:
  assumes "handle_message_pre env st msg = (st', Dispatch p n i)"
      and "py_eq (dict_get p ''enc'' PNone) (PStr ''aes'')"
  shows "\<exists>l. map_of p ''load'' = Some (PDict l) \<and> map_of l ''tok'' = None"
proof -
  obtain payload where M: "msg = PDict payload"
    using assms(1) by (cases msg) (simp_all add: handle_message_pre_def)
  obtain st1 p1 where D: "decode_payload env st payload (dict_get payload ''version'' (PInt 0)) = (st1, Inr p1)"
    using assms(1) M
    by (auto simp: handle_message_pre_def Let_def split: if_splits prod.splits sum.splits)
  have "(\<exists>idv. aes_checks env st1 p1 (dict_get payload ''version'' (PInt 0)) idv = Dispatch p n i)
        \<or> (p = p1 \<and> \<not> py_eq (dict_get p1 ''enc'' PNone) (PStr ''aes''))"
    using assms(1) M D
    by (auto simp: handle_message_pre_def Let_def
             split: if_splits prod.splits sum.splits option.splits pyval.splits)
  then show ?thesis
    using assms(2) aes_checks_dispatch by blast
qed

text \<open>
  Claim C10, as amended. Every call of \<^verbatim>\<open>validate_token\<close> (on a payload whose load is a
  dict) leaves the payload with \<^verbatim>\<open>tok\<close> deleted from the load, whatever the token, the
  flag \<^verbatim>\<open>required\<close> and the outcome. Whenever \<^verbatim>\<open>handle_message\<close> reaches the handler
  with a payload whose \<^verbatim>\<open>enc\<close> is \<^verbatim>\<open>aes\<close>, the load of that payload has no
  \<^verbatim>\<open>tok\<close>.
\<close>

theorem tok_removed_on_aes_path:
  "(map_of payload ''load'' = Some (PDict load) \<longrightarrow>
      fst (validate_token env payload required)
        = AList.update ''load'' (PDict (AList.delete ''tok'' load)) payload) \<and>
   (handle_message_pre env st msg = (st', Dispatch p n i) \<and>
    py_eq (dict_get p ''enc'' PNone) (PStr ''aes'') \<longrightarrow>
      (\<exists>l. map_of p ''load'' = Some (PDict l) \<and> map_of l ''tok'' = None))"
  using validate_token_pops [of payload load env required] pre_dispatch_aes [of env st msg st' p n i]
  by blast


text \<open>The theorem on a request that carries a valid token.\<close>

theorem tok_removed_on_aes_path_witness:
  "snd (handle_message_pre demo_env demo_st aes_msg_with_tok)
     = Dispatch tok_free_payload (Some PNone) (PStr ''minion1'') \<and>
   py_eq (dict_get tok_free_payload ''enc'' PNone) (PStr ''aes'') \<and>
   map_of decoded_payload ''load''
     = Some (PDict [(''cmd'', PStr ''ping''), (''id'', PStr ''minion1''),
                    (''tok'', PBytes ''tok:PUB1'')]) \<and>
   fst (validate_token demo_env decoded_payload False) = tok_free_payload \<and>
   (\<exists>l. map_of tok_free_payload ''load'' = Some (PDict l) \<and> map_of l ''tok'' = None)"
proof -
  have a: "snd (handle_message_pre demo_env demo_st aes_msg_with_tok)
             = Dispatch tok_free_payload (Some PNone) (PStr ''minion1'')"
    by code_simp
  have b: "py_eq (dict_get tok_free_payload ''enc'' PNone) (PStr ''aes'')"
    by code_simp
  have c: "map_of decoded_payload ''load''
     = Some (PDict [(''cmd'', PStr ''ping''), (''id'', PStr ''minion1''),
                    (''tok'', PBytes ''tok:PUB1'')])"
    by (simp add: decoded_payload_def)
  have d: "handle_message_pre demo_env demo_st aes_msg_with_tok
             = (fst (handle_message_pre demo_env demo_st aes_msg_with_tok),
                Dispatch tok_free_payload (Some PNone) (PStr ''minion1''))"
    using a by (metis prod.collapse)
  have u: "AList.update ''load''
             (PDict (AList.delete ''tok'' [(''cmd'', PStr ''ping''), (''id'', PStr ''minion1''),
                    (''tok'', PBytes ''tok:PUB1'')])) decoded_payload = tok_free_payload"
    by (simp add: decoded_payload_def tok_free_payload_def)
  note t = tok_removed_on_aes_path [where env = demo_env and st = demo_st
      and msg = aes_msg_with_tok and p = tok_free_payload and n = "Some PNone"
      and i = "PStr ''minion1''" and payload = decoded_payload and required = False
      and st' = "fst (handle_message_pre demo_env demo_st aes_msg_with_tok)"
      and load = "[(''cmd'', PStr ''ping''), (''id'', PStr ''minion1''),
                    (''tok'', PBytes ''tok:PUB1'')]"]
  from t c u have e: "fst (validate_token demo_env decoded_payload False) = tok_free_payload"
    by simp
  from t d b have f: "\<exists>l. map_of tok_free_payload ''load'' = Some (PDict l) \<and> map_of l ''tok'' = None"
    by blast
  from a b c e f show ?thesis by blast
qed

text \<open>
  Claim C10 as stated fails for a payload in the clear: \<^verbatim>\<open>validate_token\<close> is only called
  inside \<^verbatim>\<open>if payload["enc"] == "aes"\<close>, so a request in the clear that is not
  \<^verbatim>\<open>_auth\<close> reaches the handler with its \<^verbatim>\<open>tok\<close>.
\<close>

theorem handler_sees_tok_counterexample:
  "snd (handle_message_pre demo_env demo_st clear_msg_with_tok)
     = Dispatch [(''enc'', PStr ''clear''),
                 (''load'', PDict [(''cmd'', PStr ''ping''), (''tok'', PBytes ''x'')])]
         None (PStr []) \<and>
   map_of [(''cmd'', PStr ''ping''), (''tok'', PBytes ''x'')] ''tok'' = Some (PBytes ''x'')"
  by code_simp

subsection \<open>Private replies\<close>

lemma encrypt_private_no_record:
  assumes "\<And>t. target = PStr t \<Longrightarrow> keys st t = None"
  shows "encrypt_private env st ret dictkey target nonce sm ea sa
           = (st\<lparr>key_counter := Suc (key_counter st)\<rparr>,
              dumps env (crypticle_key st) (PDict []) PNone)"
  using assms
  by (cases target) (simp_all add: encrypt_private_def empty_payload_def Let_def)

lemma encrypt_private_bad_key:
  assumes "target = PStr t" "keys st t = Some k" "pubkey_from_str env (pub k) = Inl e"
  shows "encrypt_private env st ret dictkey target nonce sm ea sa
           = (st\<lparr>key_counter := Suc (key_counter st)\<rparr>,
              dumps env (crypticle_key st) (PDict []) PNone)"
  using assms
  by (simp add: encrypt_private_def empty_payload_def Let_def)

text \<open>
  What the guard of \<^verbatim>\<open>_encrypt_private\<close> does cover: when the key cache has no record
  for the target, or the parsing of the target's public key raises an exception, the result
  is the empty payload, \<^verbatim>\<open>self.crypticle.dumps({})\<close>.
\<close>

lemma encrypt_private_degrades:
  "((\<forall>t. target = PStr t \<longrightarrow> keys st t = None) \<or>
    (\<exists>t k e. target = PStr t \<and> keys st t = Some k \<and> pubkey_from_str env (pub k) = Inl e))
   \<longrightarrow> encrypt_private env st ret dictkey target nonce sm ea sa
           = (st\<lparr>key_counter := Suc (key_counter st)\<rparr>,
              dumps env (crypticle_key st) (PDict []) PNone)"
  using encrypt_private_no_record [of target st env ret dictkey nonce sm ea sa]
        encrypt_private_bad_key [of target _ st _ env _ ret dictkey nonce sm ea sa]
  by blast

text \<open>With an algorithm the key supports the private reply is built.\<close>

lemma private_reply_supported_algorithm:
  "snd (handle_message private_env accepted_st (pillar_msg ''OAEP-SHA1''))
     = Inr (PDict [(''key'', PBytes ''rsa:PUB1''),
                   (''pillar'', PDict [(''key'', PBytes ''key''),
                                       (''plain'', PDict [(''pillar'', PStr ''data'')])])])"
  by code_simp

text \<open>
  Claim C8, evaluated on the code. The request names an encryption algorithm the target's
  key does not support. The key record is found and the key parses, so the \<^verbatim>\<open>try\<close>
  block of \<^verbatim>\<open>_encrypt_private\<close> is left without an exception; the next statement,
  \<^verbatim>\<open>pub.encrypt(key, encryption_algorithm)\<close>, is outside the block and raises
  \<^verbatim>\<open>UnsupportedAlgorithm\<close>. \<^verbatim>\<open>_encrypt_private\<close> raises it instead of returning the
  empty payload, and so does \<^verbatim>\<open>handle_message\<close>.
\<close>

theorem encrypt_private_unsupported_algorithm_raises:
  "snd (encrypt_private demo_env accepted_st (PDict [(''pillar'', PStr ''data'')])
          (PStr ''pillar'') (PStr ''minion1'') PNone False (PStr ''bogus'') PKCS1v15_SHA1)
     = Inl UnsupportedAlgorithm \<and>
   snd (handle_message private_env accepted_st (pillar_msg ''bogus''))
     = Inl UnsupportedAlgorithm"
  by code_simp

subsection \<open>Binding of the outer id to the inner id\<close>

lemma py_gt_2_1: "py_gt v 2 = Inr True \<Longrightarrow> py_gt v 1 = Inr True"
  by (auto simp: py_gt_def split: option.splits)

lemma py_eq_str: "py_eq (PStr a) (PStr b) \<longleftrightarrow> a = b"
  by (simp add: py_eq_def py_num_def)

lemma decode_v3_shape:
  assumes "map_of p ''enc'' = Some (PStr ''aes'')" "py_gt v 2 = Inr True"
      "decode_payload env st p v = (st1, Inr p1)"
  shows "\<exists>x. p1 = AList.update ''load'' x p"
  using assms
  by (auto simp: decode_payload_def py_eq_str split: option.splits if_splits prod.splits sum.splits)

lemma aes_checks_id_mismatch:
  assumes "map_of p1 ''load'' = Some (PDict L)" "py_gt v 2 = Inr True"
      "map_of L ''id'' = Some inner" "map_of p1 ''id'' = Some outer" "\<not> py_eq outer inner"
      "request_server_ttl env \<le> 0 \<or> (\<exists>ts t. map_of L ''ts'' = Some ts \<and> py_num ts = Some t)"
  shows "aes_checks env st1 p1 v idv = Reply bad_load"
  using assms py_gt_2_1 [OF assms(2)]
  by (auto simp: aes_checks_def ttl_check_def dict_pop_def Let_def update_conv' delete_conv')


text \<open>
  Claim C2, as amended. Take a payload with \<^verbatim>\<open>enc = "aes"\<close> and a version above 2 that
  decrypts to a dict which has an \<^verbatim>\<open>id\<close>, different from the outer id. Then
  \<^verbatim>\<open>handle_message\<close> rejects the request without calling the handler, whatever else the
  load holds. The reply is \<^verbatim>\<open>bad load\<close>, unless the structural check of the inner id,
  which runs first, answers: \<^verbatim>\<open>bad load: id contains a null byte\<close> when the test
  \<^verbatim>\<open>"\0" in id\<close> is true (text with a NUL, a list or dict that holds \<^verbatim>\<open>"\0"\<close>), and
  \<^verbatim>\<open>bad load: id ... is not a string\<close> when that test raises \<^verbatim>\<open>TypeError\<close>
  (\<^verbatim>\<open>None\<close>, a number, bytes). When \<^verbatim>\<open>request_server_ttl\<close> is positive the load is
  assumed to carry a numeric \<^verbatim>\<open>ts\<close>.
\<close>

theorem id_mismatch_rejected:
  assumes "map_of p ''enc'' = Some (PStr ''aes'')"
      and "py_gt (dict_get p ''version'' (PInt 0)) 2 = Inr True"
      and "decode_payload env st p (dict_get p ''version'' (PInt 0)) = (st1, Inr p1)"
      and "map_of p1 ''load'' = Some (PDict L)"
      and "map_of L ''id'' = Some inner"
      and "map_of p ''id'' = Some outer"
      and "\<not> py_eq outer inner"
      and "request_server_ttl env \<le> 0 \<or>
           (\<exists>ts t. map_of L ''ts'' = Some ts \<and> py_num ts = Some t)"
  shows "handle_message env st (PDict p)
           = (st1, Inr (case contains_nul inner of
                          Inl e \<Rightarrow> PStr (''bad load: id '' @ py_str env inner
                                              @ '' is not a string'')
                        | Inr has_nul \<Rightarrow>
                            if has_nul then PStr ''bad load: id contains a null byte''
                            else bad_load))"
proof -
  obtain x where p1: "p1 = AList.update ''load'' x p"
    using decode_v3_shape [OF assms(1,2,3)] ..
  have e: "map_of p1 ''enc'' = Some (PStr ''aes'')" and o: "map_of p1 ''id'' = Some outer"
    using assms(1,6) by (simp_all add: p1 update_conv')
  have l: "map_of p ''load'' \<noteq> None"
    using assms(1,2,3)
    by (auto simp: decode_payload_def py_eq_str
             split: option.splits if_splits prod.splits sum.splits)
  have i: "dict_get L ''id'' (PStr []) = inner"
    using assms(5) by (simp add: dict_get_def)
  have a: "aes_checks env st1 p1 (dict_get p ''version'' (PInt 0)) inner = Reply bad_load"
    using assms(4,2,5) o assms(7,8) by (rule aes_checks_id_mismatch)
  have c: "\<not> py_eq (PStr ''aes'') (PStr ''clear'')" "py_eq (PStr ''aes'') (PStr ''aes'')"
    by (simp_all add: py_eq_str)
  show ?thesis
    using assms(1,3,4) l e i a c py_gt_2_1 [OF assms(2)]
    by (cases "contains_nul inner")
       (auto simp: handle_message_def handle_message_pre_def Let_def dict_get_def)
qed

text \<open>The theorem on a request of \<open>minion1\<close> whose inner id is \<open>minion2\<close>.\<close>

theorem id_mismatch_rejected_witness:
  "map_of v3_payload_other_id ''enc'' = Some (PStr ''aes'') \<and>
   py_gt (dict_get v3_payload_other_id ''version'' (PInt 0)) 2 = Inr True \<and>
   snd (decode_payload demo_env demo_st v3_payload_other_id (PInt 3))
     = Inr [(''enc'', PStr ''aes''), (''version'', PInt 3), (''id'', PStr ''minion1''),
            (''load'', PDict [(''id'', PStr ''minion2''), (''cmd'', PStr ''ping'')])] \<and>
   \<not> py_eq (PStr ''minion1'') (PStr ''minion2'') \<and>
   request_server_ttl demo_env \<le> 0 \<and>
   snd (handle_message demo_env demo_st (PDict v3_payload_other_id)) = Inr bad_load"
proof -
  let ?L = "[(''id'', PStr ''minion2''), (''cmd'', PStr ''ping'')]"
  let ?p1 = "[(''enc'', PStr ''aes''), (''version'', PInt 3), (''id'', PStr ''minion1''),
              (''load'', PDict ?L)]"
  let ?st1 = "fst (decode_payload demo_env demo_st v3_payload_other_id
                     (dict_get v3_payload_other_id ''version'' (PInt 0)))"
  have h1: "map_of v3_payload_other_id ''enc'' = Some (PStr ''aes'')"
    by (simp add: v3_payload_other_id_def)
  have v: "dict_get v3_payload_other_id ''version'' (PInt 0) = PInt 3"
    by (simp add: v3_payload_other_id_def dict_get_def)
  have h2: "py_gt (dict_get v3_payload_other_id ''version'' (PInt 0)) 2 = Inr True"
    by (simp add: v py_gt_def py_num_def)
  have d: "snd (decode_payload demo_env demo_st v3_payload_other_id (PInt 3)) = Inr ?p1"
    by code_simp
  have h3: "decode_payload demo_env demo_st v3_payload_other_id
              (dict_get v3_payload_other_id ''version'' (PInt 0)) = (?st1, Inr ?p1)"
    using d unfolding v by (metis prod.collapse)
  have h4: "map_of ?p1 ''load'' = Some (PDict ?L)" by simp
  have h5: "map_of ?L ''id'' = Some (PStr ''minion2'')" by simp
  have h6: "map_of v3_payload_other_id ''id'' = Some (PStr ''minion1'')"
    by (simp add: v3_payload_other_id_def)
  have h7: "\<not> py_eq (PStr ''minion1'') (PStr ''minion2'')"
    by (simp add: py_eq_def py_num_def)
  have h8: "request_server_ttl demo_env \<le> 0"
    by (simp add: demo_env_def)
  have n: "contains_nul (PStr ''minion2'') = Inr False"
    by code_simp
  from id_mismatch_rejected [OF h1 h2 h3 h4 h5 h6 h7 disjI1 [OF h8]]
  have "snd (handle_message demo_env demo_st (PDict v3_payload_other_id)) = Inr bad_load"
    by (simp add: n)
  with h1 h2 d h7 h8 show ?thesis by simp
qed

text \<open>
  Claim C2 as stated fails when the inner id contains a NUL: the structural check of the id
  runs before the comparison of the two ids, and its reply is not the generic one.
\<close>

theorem id_binding_nul_counterexample:
  "snd (handle_message demo_env demo_st v3_msg_nul_id)
     = Inr (PStr ''bad load: id contains a null byte'')"
  by code_simp

subsection \<open>Key-swap detection\<close>

lemma gate_passes:
  "passes_gate env st i \<Longrightarrow> max_minions_gate env st load i pubv sm sa = (st, None)"
  by (auto simp: passes_gate_def max_minions_gate_def Let_def)

lemma decide_swapped_key:
  assumes "\<not> open_mode env" "keys st i = Some k" "state k = ''accepted''"
      "py_strip (pub k) = Inr k1" "\<not> compare_keys env k1 k2"
  shows "auth_decide env st load i k2 sm sa
           = (fire_auth_event env (record_denied st i k2)
                (PDict [(''result'', PBool False), (''id'', PStr i),
                        (''act'', PStr ''denied''), (''pub'', k2)]),
              Done (auth_reply env load sm sa (PBool False)))"
  using assms by (simp add: auth_decide_def fetch_key_def Let_def)

lemma auth_swapped_key:
  assumes "\<not> open_mode env" "map_of load ''id'' = Some (PStr i)" "valid_id env i"
      "map_of load ''pub'' = Some p0" "py_strip p0 = Inr k2"
      "keys st i = Some k" "state k = ''accepted''"
      "py_strip (pub k) = Inr k1" "\<not> compare_keys env k1 k2" "passes_gate env st i"
  shows "auth env st load sm version
           = (fire_auth_event env (record_denied st i k2)
                (PDict [(''result'', PBool False), (''id'', PStr i),
                        (''act'', PStr ''denied''), (''pub'', k2)]),
              auth_reply env load sm (dict_get load ''sig_algo'' PKCS1v15_SHA1) (PBool False))"
  using assms gate_passes [OF assms(10)] decide_swapped_key [OF assms(1,6,7,8,9)]
  by (simp add: auth_def valid_id_val_def Let_def)

lemma denied_after_record:
  "denied_for (fire_auth_event env (record_denied st i k2) ev) i
     = (if py_in k2 (denied_for st i) then denied_for st i else denied_for st i @ [k2])"
  by (simp add: denied_for_def fire_auth_event_def record_denied_def Let_def)

lemma keys_after_record:
  "keys (fire_auth_event env (record_denied st i k2) ev) = keys st \<and>
   key_stores (fire_auth_event env (record_denied st i k2) ev) = key_stores st"
  by (simp add: fire_auth_event_def record_denied_def Let_def)

text \<open>
  Claim C1, as amended. Open mode is off, the id of the request is valid, its (stripped)
  public key \<open>k2\<close> does not compare equal to the stored key of an accepted record, and
  the request passes the \<^verbatim>\<open>max_minions\<close> gate. Then, whatever the \<^verbatim>\<open>AutoKey\<close> checks
  say, \<open>k2\<close> is appended to the denied keys of the id unless it is among them, no key
  record is stored, and the request is rejected: when messages are not signed the reply is
  \<^verbatim>\<open>ret: False\<close> in the clear; when they are signed and the request carries a nonce, the
  reply is the signed form of \<^verbatim>\<open>{ret: False, nonce}\<close>, or \<^verbatim>\<open>ret: "bad sig algo"\<close> in
  the clear when the signing algorithm of the request is not supported.
\<close>

theorem key_swap_denied:
  assumes "\<not> open_mode env"
      and "map_of load ''id'' = Some (PStr i)" and "valid_id env i"
      and "map_of load ''pub'' = Some p0" and "py_strip p0 = Inr k2"
      and "keys st i = Some k" and "state k = ''accepted''"
      and "py_strip (pub k) = Inr k1" and "\<not> compare_keys env k1 k2"
      and "passes_gate env st i"
  shows "denied_for (fst (auth env st load sm version)) i
           = (if py_in k2 (denied_for st i) then denied_for st i else denied_for st i @ [k2]) \<and>
         keys (fst (auth env st load sm version)) = keys st \<and>
         key_stores (fst (auth env st load sm version)) = key_stores st \<and>
         (\<not> sm \<longrightarrow> snd (auth env st load sm version)
                       = Inr (PDict [(''enc'', PStr ''clear''),
                                     (''load'', PDict [(''ret'', PBool False)])])) \<and>
         (\<forall>n tosign sg.
            sm \<and> map_of load ''nonce'' = Some n \<and>
            payload_dumps env (PDict [(''ret'', PBool False), (''nonce'', n)]) = Inr tosign \<and>
            master_sign env tosign (dict_get load ''sig_algo'' PKCS1v15_SHA1) = Inr sg
            \<longrightarrow> snd (auth env st load sm version)
                  = Inr (PDict [(''enc'', PStr ''clear''), (''load'', PBytes tosign),
                                (''sig'', PBytes sg)])) \<and>
         (\<forall>n.
            sm \<and> map_of load ''nonce'' = Some n \<and>
            (payload_dumps env (PDict [(''ret'', PBool False), (''nonce'', n)])
               = Inl UnsupportedAlgorithm \<or>
             (\<exists>tosign.
                payload_dumps env (PDict [(''ret'', PBool False), (''nonce'', n)]) = Inr tosign \<and>
                master_sign env tosign (dict_get load ''sig_algo'' PKCS1v15_SHA1)
                  = Inl UnsupportedAlgorithm))
            \<longrightarrow> snd (auth env st load sm version)
                  = Inr (PDict [(''enc'', PStr ''clear''),
                                (''load'', PDict [(''ret'', PStr ''bad sig algo'')])]))"
  unfolding auth_swapped_key [OF assms]
  using denied_after_record keys_after_record
  by (auto simp: auth_reply_def clear_signed_def Let_def)

text \<open>
  The theorem on \<open>minion1\<close>, accepted with \<open>PUB1\<close>, presenting \<open>PUB2\<close>: in an
  unsigned request, and in a signed one.
\<close>

theorem key_swap_denied_witness:
  "\<not> open_mode demo_env \<and> valid_id demo_env ''minion1'' \<and>
   keys accepted_st ''minion1'' = Some \<lparr>pub = PStr ''PUB1'', state = ''accepted''\<rparr> \<and>
   \<not> compare_keys demo_env (PStr ''PUB1'') (PStr ''PUB2'') \<and>
   passes_gate demo_env accepted_st ''minion1'' \<and>
   snd (auth demo_env accepted_st (auth_load ''minion1'' ''PUB2'') False (PInt 0))
     = Inr (PDict [(''enc'', PStr ''clear''), (''load'', PDict [(''ret'', PBool False)])]) \<and>
   denied_for (fst (auth demo_env accepted_st (auth_load ''minion1'' ''PUB2'') False (PInt 0)))
     ''minion1'' = [PStr ''PUB2''] \<and>
   keys (fst (auth demo_env accepted_st (auth_load ''minion1'' ''PUB2'') False (PInt 0)))
     = keys accepted_st \<and>
   snd (auth demo_env accepted_st (signed_auth_load ''minion1'' ''PUB2'' ''PKCS1v15-SHA1'')
          True (PInt 2))
     = Inr (PDict [(''enc'', PStr ''clear''), (''load'', PBytes ''msgpack''),
                   (''sig'', PBytes ''sig'')]) \<and>
   denied_for (fst (auth demo_env accepted_st
                      (signed_auth_load ''minion1'' ''PUB2'' ''PKCS1v15-SHA1'') True (PInt 2)))
     ''minion1'' = [PStr ''PUB2'']"
proof -
  let ?S = "signed_auth_load ''minion1'' ''PUB2'' ''PKCS1v15-SHA1''"
  have h1: "\<not> open_mode demo_env" by (simp add: demo_env_def)
  have h2: "map_of (auth_load ''minion1'' ''PUB2'') ''id'' = Some (PStr ''minion1'')"
           "map_of ?S ''id'' = Some (PStr ''minion1'')"
    by (simp_all add: auth_load_def signed_auth_load_def)
  have h3: "valid_id demo_env ''minion1''" by code_simp
  have h4: "map_of (auth_load ''minion1'' ''PUB2'') ''pub'' = Some (PStr ''PUB2'')"
           "map_of ?S ''pub'' = Some (PStr ''PUB2'')"
    by (simp_all add: auth_load_def signed_auth_load_def)
  have h5: "py_strip (PStr ''PUB2'') = Inr (PStr ''PUB2'')" by code_simp
  have h6: "keys accepted_st ''minion1'' = Some \<lparr>pub = PStr ''PUB1'', state = ''accepted''\<rparr>"
    by (simp add: accepted_st_def demo_st_def)
  have h7: "state \<lparr>pub = PStr ''PUB1'', state = ''accepted''\<rparr> = ''accepted''" by simp
  have h8: "py_strip (pub \<lparr>pub = PStr ''PUB1'', state = ''accepted''\<rparr>) = Inr (PStr ''PUB1'')"
    by code_simp
  have h9: "\<not> compare_keys demo_env (PStr ''PUB1'') (PStr ''PUB2'')"
    by (simp add: compare_keys_def demo_env_def py_eq_def py_num_def)
  have h10: "passes_gate demo_env accepted_st ''minion1''"
    by (simp add: passes_gate_def demo_env_def)
  have d: "denied_for accepted_st ''minion1'' = []"
    by (simp add: denied_for_def accepted_st_def demo_st_def)
  have n: "map_of ?S ''nonce'' = Some (PStr ''n1'')"
    by (simp add: signed_auth_load_def)
  have pd: "payload_dumps demo_env (PDict [(''ret'', PBool False), (''nonce'', PStr ''n1'')])
              = Inr ''msgpack''"
    by (simp add: demo_env_def)
  have ms: "master_sign demo_env ''msgpack'' (dict_get ?S ''sig_algo'' PKCS1v15_SHA1) = Inr ''sig''"
    by (simp add: demo_env_def signed_auth_load_def dict_get_def)
  note t = key_swap_denied [OF h1 h2(1) h3 h4(1) h5 h6 h7 h8 h9 h10, of False "PInt 0"]
  note u = key_swap_denied [OF h1 h2(2) h3 h4(2) h5 h6 h7 h8 h9 h10, of True "PInt 2"]
  from t have r: "snd (auth demo_env accepted_st (auth_load ''minion1'' ''PUB2'') False (PInt 0))
     = Inr (PDict [(''enc'', PStr ''clear''), (''load'', PDict [(''ret'', PBool False)])])"
    by blast
  from t have "denied_for (fst (auth demo_env accepted_st (auth_load ''minion1'' ''PUB2'')
                      False (PInt 0))) ''minion1''
     = (if py_in (PStr ''PUB2'') (denied_for accepted_st ''minion1'')
        then denied_for accepted_st ''minion1''
        else denied_for accepted_st ''minion1'' @ [PStr ''PUB2''])"
    by blast
  then have dn: "denied_for (fst (auth demo_env accepted_st (auth_load ''minion1'' ''PUB2'')
                      False (PInt 0))) ''minion1'' = [PStr ''PUB2'']"
    by (simp add: d py_in_def)
  from t have k: "keys (fst (auth demo_env accepted_st (auth_load ''minion1'' ''PUB2'')
                      False (PInt 0))) = keys accepted_st"
    by blast
  from u n pd ms have rs: "snd (auth demo_env accepted_st ?S True (PInt 2))
     = Inr (PDict [(''enc'', PStr ''clear''), (''load'', PBytes ''msgpack''),
                   (''sig'', PBytes ''sig'')])"
    by blast
  from u have "denied_for (fst (auth demo_env accepted_st ?S True (PInt 2))) ''minion1''
     = (if py_in (PStr ''PUB2'') (denied_for accepted_st ''minion1'')
        then denied_for accepted_st ''minion1''
        else denied_for accepted_st ''minion1'' @ [PStr ''PUB2''])"
    by blast
  then have ds: "denied_for (fst (auth demo_env accepted_st ?S True (PInt 2))) ''minion1''
                   = [PStr ''PUB2'']"
    by (simp add: d py_in_def)
  from h1 h3 h6 h9 h10 r dn k rs ds show ?thesis by blast
qed

text \<open>
  Claim C1 as stated fails when the \<^verbatim>\<open>max_minions\<close> gate fires first: with a cap of 1,
  two other minions connected and \<open>minion1\<close> not among them, the request with the swapped
  key is answered \<^verbatim>\<open>full\<close> and the key is not recorded as denied. It also fails for a
  signed request that asks for a signing algorithm the master does not support: the reply is
  \<^verbatim>\<open>ret: "bad sig algo"\<close>, neither \<^verbatim>\<open>ret: False\<close> nor its signed form.
\<close>

theorem key_swap_full_counterexample:
  "snd (handle_message (capped_env 1) accepted_st (auth_msg ''minion1'' ''PUB2''))
     = Inr (PDict [(''enc'', PStr ''clear''), (''load'', PDict [(''ret'', PStr ''full'')])]) \<and>
   denied_keys (fst (handle_message (capped_env 1) accepted_st (auth_msg ''minion1'' ''PUB2'')))
     ''minion1'' = None \<and>
   snd (handle_message demo_env accepted_st (signed_auth_msg ''minion1'' ''PUB2'' ''bogus''))
     = Inr (PDict [(''enc'', PStr ''clear''),
                   (''load'', PDict [(''ret'', PStr ''bad sig algo'')])])"
  by code_simp

subsection \<open>Repeated authentication of an accepted minion\<close>

lemma key_frame_refl: "key_frame i st st"
  by (simp add: key_frame_def)

lemma session_key_frame:
  "session_key env st m = (st', r) \<Longrightarrow>
   keys st' = keys st \<and> key_stores st' = key_stores st \<and> cached_minions st' = cached_minions st
   \<and> secret_aes st' = secret_aes st \<and> secret_cluster_aes st' = secret_cluster_aes st"
  by (auto simp: session_key_def session_key_file_def write_key_def Let_def
           split: pyval.splits option.splits if_splits prod.splits)

lemma session_key_text: "\<exists>st' k. session_key env st (PStr m) = (st', Inr k)"
  by (auto simp: session_key_def session_key_file_def write_key_def Let_def
           split: option.splits if_splits prod.splits)

lemma encrypt_secrets_frame:
  "encrypt_secrets env st i pk ea ret aes = (st', r) \<Longrightarrow>
   keys st' = keys st \<and> key_stores st' = key_stores st \<and> cached_minions st' = cached_minions st
   \<and> secret_aes st' = secret_aes st \<and> secret_cluster_aes st' = secret_cluster_aes st"
  by (auto simp: encrypt_secrets_def split: option.splits sum.splits prod.splits
           dest: session_key_frame)

lemma auth_secrets_frame:
  "auth_secrets env st load i pk ea ret = (st', r) \<Longrightarrow>
   keys st' = keys st \<and> key_stores st' = key_stores st \<and> cached_minions st' = cached_minions st
   \<and> secret_aes st' = secret_aes st \<and> secret_cluster_aes st' = secret_cluster_aes st"
  by (auto simp: auth_secrets_def Let_def split: option.splits sum.splits if_splits
           dest: encrypt_secrets_frame)


lemma auth_store_accepted:
  "\<not> open_mode env \<Longrightarrow> state k = ''accepted'' \<Longrightarrow>
   auth_store env st i k2 (Some k) = (st, Some k)"
  by (simp add: auth_store_def Let_def)

lemma put_cache_frame:
  "key_frame i st (if con_cache env then put_cache st i else st)"
  by (simp add: key_frame_def put_cache_def)

lemma fire_frame:
  "keys (fire_auth_event env st ev) = keys st \<and>
   key_stores (fire_auth_event env st ev) = key_stores st \<and>
   cached_minions (fire_auth_event env st ev) = cached_minions st \<and>
   secret_aes (fire_auth_event env st ev) = secret_aes st \<and>
   secret_cluster_aes (fire_auth_event env st ev) = secret_cluster_aes st"
  by (simp add: fire_auth_event_def)

lemma auth_accept_frame:
  assumes "\<not> open_mode env" "state k = ''accepted''"
      "auth_accept env st load i k2 (Some k) sm sa ea = (st', r)"
  shows "key_frame i st st'"
proof -
  define st2 where "st2 = (if con_cache env then put_cache st i else st)"
  have f2: "key_frame i st st2"
    unfolding st2_def by (rule put_cache_frame)
  have "keys st' = keys st2 \<and> key_stores st' = key_stores st2
        \<and> cached_minions st' = cached_minions st2
        \<and> secret_aes st' = secret_aes st2 \<and> secret_cluster_aes st' = secret_cluster_aes st2"
    using assms(3) unfolding auth_accept_def auth_store_accepted [OF assms(1,2)]
    by (auto simp: Let_def st2_def [symmetric] fire_frame
             split: sum.splits if_splits prod.splits option.splits
             dest!: auth_secrets_frame)
  with f2 show ?thesis by (auto simp: key_frame_def)
qed


lemma decide_same_key:
  assumes "\<not> open_mode env" "keys st i = Some k" "state k = ''accepted''"
      "py_strip (pub k) = Inr k1" "compare_keys env k1 k2"
  shows "auth_decide env st load i k2 sm sa = (st, AcceptPath (Some (k\<lparr>pub := k1\<rparr>)))"
  using assms by (simp add: auth_decide_def fetch_key_def Let_def)

lemma auth_same_key:
  assumes "\<not> open_mode env" "map_of load ''id'' = Some (PStr i)" "valid_id env i"
      "map_of load ''pub'' = Some p0" "py_strip p0 = Inr k2"
      "keys st i = Some k" "state k = ''accepted''"
      "py_strip (pub k) = Inr k1" "compare_keys env k1 k2" "passes_gate env st i"
  shows "auth env st load sm version
           = auth_accept env st load i k2 (Some (k\<lparr>pub := k1\<rparr>)) sm
               (dict_get load ''sig_algo'' PKCS1v15_SHA1) (dict_get load ''enc_algo'' OAEP_SHA1)"
  using assms gate_passes [OF assms(10)] decide_same_key [OF assms(1,6,7,8,9)]
  by (simp add: auth_def valid_id_val_def Let_def)

lemma auth_pub_sig_shape:
  "auth_pub_sig env sa = Inr ret0 \<Longrightarrow>
   map_of ret0 ''enc'' = Some (PStr ''pub'') \<and> map_of ret0 ''pub_key'' \<noteq> None
   \<and> map_of ret0 ''publish_port'' \<noteq> None"
  by (auto simp: auth_pub_sig_def Let_def split: if_splits option.splits sum.splits)

lemma aes_key_put_cache:
  "aes_key env (if con_cache env then put_cache st i else st) = aes_key env st"
  by (simp add: aes_key_def put_cache_def)

lemma encrypt_secrets_ok:
  assumes "\<And>m. \<exists>c. pub_encrypt env pk m ea = Inr c"
  shows "\<exists>st' c s. encrypt_secrets env st i pk ea ret (Some aes)
           = (st', Inr (AList.update ''session'' (PBytes s)
                          (AList.update ''aes'' (PBytes c) ret), aes))"
proof -
  obtain c where c: "pub_encrypt env pk aes ea = Inr c" using assms by blast
  obtain st' sk where k: "session_key env st (PStr i) = (st', Inr sk)"
    using session_key_text by blast
  obtain s where s: "pub_encrypt env pk (PBytes sk) ea = Inr s" using assms by blast
  have "encrypt_secrets env st i pk ea ret (Some aes)
           = (st', Inr (AList.update ''session'' (PBytes s)
                          (AList.update ''aes'' (PBytes c) ret), aes))"
    by (simp add: encrypt_secrets_def c k s)
  then show ?thesis by blast
qed

lemma passes_gate_frame:
  "passes_gate env st i \<Longrightarrow> key_frame i st st1 \<Longrightarrow> passes_gate env st1 i"
  by (auto simp: passes_gate_def key_frame_def Let_def py_in_def py_eq_def py_num_def)

lemma aes_key_frame: "key_frame i st st1 \<Longrightarrow> aes_key env st1 = aes_key env st"
  by (simp add: key_frame_def aes_key_def)

lemma auth_secrets_reduces:
  assumes "\<And>m. \<exists>c. pub_encrypt env pk m ea = Inr c"
      and "map_of load ''token'' = None \<or>
           (\<exists>tok mt. map_of load ''token'' = Some tok \<and>
                     master_decrypt_tok env tok ea = Inr mt) \<or>
           (auth_mode env < 2 \<and>
            (\<exists>tok e. map_of load ''token'' = Some tok \<and>
                     master_decrypt_tok env tok ea = Inl e \<and> e \<noteq> UnsupportedAlgorithm))"
  shows "\<exists>R v. auth_secrets env st load i pk ea ret0 = encrypt_secrets env st i pk ea R (Some v)
           \<and> (R = ret0 \<or> (\<exists>t. R = AList.update ''token'' t ret0))
           \<and> (v = PBytes (aes_key env st) \<or>
                (2 \<le> auth_mode env \<and>
                 (\<exists>tok mt. map_of load ''token'' = Some tok \<and>
                           master_decrypt_tok env tok ea = Inr mt \<and>
                           v = PStr (format_token env (secret_aes st) mt))))"
proof (cases "map_of load ''token''")
  case None
  then show ?thesis by (auto simp: auth_secrets_def Let_def)
next
  case (Some tok)
  show ?thesis
  proof (cases "master_decrypt_tok env tok ea")
    case (Inr mt)
    obtain t where t: "pub_encrypt env pk (PBytes mt) ea = Inr t" using assms(1) by blast
    show ?thesis
      using Some Inr t by (auto simp: auth_secrets_def Let_def)
  next
    case (Inl e)
    then have "auth_mode env < 2" "e \<noteq> UnsupportedAlgorithm"
      using assms(2) Some by auto
    then show ?thesis
      using Some Inl by (auto simp: auth_secrets_def Let_def)
  qed
qed

lemma accept_body:
  assumes "\<not> open_mode env" "state k = ''accepted''"
      "pubkey_from_str env (pub k) = Inr pk" "auth_pub_sig env sa = Inr ret0"
      "\<And>m. \<exists>c. pub_encrypt env pk m ea = Inr c"
      "map_of load ''token'' = None \<or>
       (\<exists>tok mt. map_of load ''token'' = Some tok \<and>
                 master_decrypt_tok env tok ea = Inr mt) \<or>
       (auth_mode env < 2 \<and>
        (\<exists>tok e. map_of load ''token'' = Some tok \<and>
                 master_decrypt_tok env tok ea = Inl e \<and> e \<noteq> UnsupportedAlgorithm))"
      "\<And>v. v = PBytes (aes_key env st) \<or>
            (2 \<le> auth_mode env \<and>
             (\<exists>tok mt. map_of load ''token'' = Some tok \<and>
                       master_decrypt_tok env tok ea = Inr mt \<and>
                       v = PStr (format_token env (secret_aes st) mt)))
          \<Longrightarrow> \<exists>d sg. sha256_digest env v = Inr d \<and> master_encrypt env d = Inr sg"
  shows "\<exists>d. is_accept_dict d \<and>
           snd (auth_accept env st load i k2 (Some k) sm sa ea)
             = (if sm then (case map_of load ''nonce'' of
                              None \<Rightarrow> Inl KeyError
                            | Some n \<Rightarrow> clear_signed env (PDict (AList.update ''nonce'' n d)) sa)
                else Inr (PDict d))"
proof -
  define st2 where "st2 = (if con_cache env then put_cache st i else st)"
  have a: "aes_key env st2 = aes_key env st" "secret_aes st2 = secret_aes st"
    unfolding st2_def by (simp_all add: aes_key_def put_cache_def)
  obtain R v where R: "auth_secrets env st2 load i pk ea ret0
                         = encrypt_secrets env st2 i pk ea R (Some v)"
      and Rs: "R = ret0 \<or> (\<exists>t. R = AList.update ''token'' t ret0)"
      and v: "v = PBytes (aes_key env st) \<or>
                (2 \<le> auth_mode env \<and>
                 (\<exists>tok mt. map_of load ''token'' = Some tok \<and>
                           master_decrypt_tok env tok ea = Inr mt \<and>
                           v = PStr (format_token env (secret_aes st) mt)))"
    using auth_secrets_reduces [OF assms(5,6), of st2 i ret0] unfolding a by blast
  obtain st3 c s where e: "encrypt_secrets env st2 i pk ea R (Some v)
           = (st3, Inr (AList.update ''session'' (PBytes s)
                          (AList.update ''aes'' (PBytes c) R), v))"
    using encrypt_secrets_ok [OF assms(5)] by blast
  obtain d sg where d: "sha256_digest env v = Inr d" and sg: "master_encrypt env d = Inr sg"
    using assms(7) [OF v] by blast
  define body where "body = AList.update ''sig'' (PBytes sg)
                         (AList.update ''session'' (PBytes s)
                            (AList.update ''aes'' (PBytes c) R))"
  have shape: "is_accept_dict body"
    using auth_pub_sig_shape [OF assms(4)] Rs
    by (auto simp: is_accept_dict_def body_def update_conv')
  have "snd (auth_accept env st load i k2 (Some k) sm sa ea)
             = (if sm then (case map_of load ''nonce'' of
                              None \<Rightarrow> Inl KeyError
                            | Some n \<Rightarrow> clear_signed env (PDict (AList.update ''nonce'' n body)) sa)
                else Inr (PDict body))"
    unfolding auth_accept_def auth_store_accepted [OF assms(1,2)]
    using assms(3,4) R e d sg
    by (simp add: Let_def st2_def [symmetric] body_def split: option.splits)
  with shape show ?thesis by blast
qed

text \<open>
  Claim C6, as amended. Open mode is off, the id of the request is valid, its (stripped)
  public key compares equal to the stored key of an accepted record, and the request passes
  the \<^verbatim>\<open>max_minions\<close> gate. Then two runs of \<^verbatim>\<open>_auth\<close> in a row store no key record
  (the key cache and the count of its stores are the same after each). If moreover the key
  operations succeed (the stored key parses; the public key signature, when required, can
  be made; the minion's key encrypts with the requested algorithm; a token, if the load has
  one, decrypts, or fails to decrypt under \<^verbatim>\<open>auth_mode < 2\<close> with an error other than
  \<^verbatim>\<open>UnsupportedAlgorithm\<close>; the digest of the secret can be signed), both runs return an
  accept reply, \<^verbatim>\<open>enc: "pub"\<close> with \<^verbatim>\<open>pub_key\<close>, \<^verbatim>\<open>publish_port\<close>, \<^verbatim>\<open>aes\<close>,
  \<^verbatim>\<open>session\<close> and \<^verbatim>\<open>sig\<close>: as it is when messages are not signed, and passed with the
  nonce of the request through \<^verbatim>\<open>_clear_signed\<close> when they are signed.
\<close>

theorem repeated_accept_idempotent:
  assumes "\<not> open_mode env"
      and "map_of load ''id'' = Some (PStr i)" and "valid_id env i"
      and "map_of load ''pub'' = Some p0" and "py_strip p0 = Inr k2"
      and "keys st i = Some k" and "state k = ''accepted''"
      and "py_strip (pub k) = Inr k1" and "compare_keys env k1 k2"
      and "passes_gate env st i"
      and "auth env st load sm version = (st1, r1)"
      and "auth env st1 load sm version = (st2, r2)"
      and "sa = dict_get load ''sig_algo'' PKCS1v15_SHA1"
      and "ea = dict_get load ''enc_algo'' OAEP_SHA1"
  shows "keys st1 = keys st \<and> key_stores st1 = key_stores st \<and>
         keys st2 = keys st \<and> key_stores st2 = key_stores st \<and>
         (pubkey_from_str env k1 = Inr pk \<and>
          (\<exists>ret0. auth_pub_sig env sa = Inr ret0) \<and>
          (\<forall>m. \<exists>c. pub_encrypt env pk m ea = Inr c) \<and>
          (map_of load ''token'' = None \<or>
           (\<exists>tok mt. map_of load ''token'' = Some tok \<and>
                     master_decrypt_tok env tok ea = Inr mt) \<or>
           (auth_mode env < 2 \<and>
            (\<exists>tok e. map_of load ''token'' = Some tok \<and>
                     master_decrypt_tok env tok ea = Inl e \<and> e \<noteq> UnsupportedAlgorithm))) \<and>
          (\<forall>v. v = PBytes (aes_key env st) \<or>
                (2 \<le> auth_mode env \<and>
                 (\<exists>tok mt. map_of load ''token'' = Some tok \<and>
                           master_decrypt_tok env tok ea = Inr mt \<and>
                           v = PStr (format_token env (secret_aes st) mt)))
               \<longrightarrow> (\<exists>d sg. sha256_digest env v = Inr d \<and> master_encrypt env d = Inr sg))
          \<longrightarrow> (\<not> sm \<longrightarrow> is_accept_reply r1 \<and> is_accept_reply r2) \<and>
               (\<forall>n. sm \<and> map_of load ''nonce'' = Some n \<longrightarrow>
                  (\<exists>d1 d2. is_accept_dict d1 \<and> is_accept_dict d2 \<and>
                     r1 = clear_signed env (PDict (AList.update ''nonce'' n d1)) sa \<and>
                     r2 = clear_signed env (PDict (AList.update ''nonce'' n d2)) sa)))"
proof -
  let ?k = "k\<lparr>pub := k1\<rparr>"
  have acc: "state ?k = ''accepted''" "pub ?k = k1" using assms(7) by simp_all
  have a1: "auth env st load sm version = auth_accept env st load i k2 (Some ?k) sm sa ea"
    unfolding assms(13,14) using assms(1-10) by (rule auth_same_key)
  have acc1: "auth_accept env st load i k2 (Some ?k) sm sa ea = (st1, r1)"
    using a1 assms(11) by simp
  then have f1: "key_frame i st st1"
    by (rule auth_accept_frame [OF assms(1) acc(1)])
  have k1: "keys st1 i = Some k" using f1 assms(6) by (simp add: key_frame_def)
  have g1: "passes_gate env st1 i" using assms(10) f1 by (rule passes_gate_frame)
  have a2: "auth env st1 load sm version = auth_accept env st1 load i k2 (Some ?k) sm sa ea"
    unfolding assms(13,14) using assms(1-5) k1 assms(7-9) g1 by (rule auth_same_key)
  have acc2: "auth_accept env st1 load i k2 (Some ?k) sm sa ea = (st2, r2)"
    using a2 assms(12) by simp
  then have f2: "key_frame i st1 st2"
    by (rule auth_accept_frame [OF assms(1) acc(1)])
  have frames: "keys st1 = keys st \<and> key_stores st1 = key_stores st \<and>
         keys st2 = keys st \<and> key_stores st2 = key_stores st"
    using f1 f2 by (simp add: key_frame_def)
  have same: "aes_key env st1 = aes_key env st" "secret_aes st1 = secret_aes st"
    using f1 by (simp_all add: key_frame_def aes_key_def)
  have reply: "(\<not> sm \<longrightarrow> is_accept_reply r1 \<and> is_accept_reply r2) \<and>
               (\<forall>n. sm \<and> map_of load ''nonce'' = Some n \<longrightarrow>
                  (\<exists>d1 d2. is_accept_dict d1 \<and> is_accept_dict d2 \<and>
                     r1 = clear_signed env (PDict (AList.update ''nonce'' n d1)) sa \<and>
                     r2 = clear_signed env (PDict (AList.update ''nonce'' n d2)) sa))"
    if h: "pubkey_from_str env k1 = Inr pk"
          "\<exists>ret0. auth_pub_sig env sa = Inr ret0"
          "\<forall>m. \<exists>c. pub_encrypt env pk m ea = Inr c"
          "map_of load ''token'' = None \<or>
           (\<exists>tok mt. map_of load ''token'' = Some tok \<and>
                     master_decrypt_tok env tok ea = Inr mt) \<or>
           (auth_mode env < 2 \<and>
            (\<exists>tok e. map_of load ''token'' = Some tok \<and>
                     master_decrypt_tok env tok ea = Inl e \<and> e \<noteq> UnsupportedAlgorithm))"
          "\<forall>v. v = PBytes (aes_key env st) \<or>
                (2 \<le> auth_mode env \<and>
                 (\<exists>tok mt. map_of load ''token'' = Some tok \<and>
                           master_decrypt_tok env tok ea = Inr mt \<and>
                           v = PStr (format_token env (secret_aes st) mt)))
               \<longrightarrow> (\<exists>d sg. sha256_digest env v = Inr d \<and> master_encrypt env d = Inr sg)"
  proof -
    obtain ret0 where r0: "auth_pub_sig env sa = Inr ret0" using h(2) by blast
    have e: "\<And>m. \<exists>c. pub_encrypt env pk m ea = Inr c" using h(3) by blast
    have p: "pubkey_from_str env (pub ?k) = Inr pk" using h(1) by simp
    have dg: "\<And>v. v = PBytes (aes_key env st) \<or>
                (2 \<le> auth_mode env \<and>
                 (\<exists>tok mt. map_of load ''token'' = Some tok \<and>
                           master_decrypt_tok env tok ea = Inr mt \<and>
                           v = PStr (format_token env (secret_aes st) mt)))
               \<Longrightarrow> \<exists>d sg. sha256_digest env v = Inr d \<and> master_encrypt env d = Inr sg"
      using h(5) by blast
    have dg1: "\<And>v. v = PBytes (aes_key env st1) \<or>
                (2 \<le> auth_mode env \<and>
                 (\<exists>tok mt. map_of load ''token'' = Some tok \<and>
                           master_decrypt_tok env tok ea = Inr mt \<and>
                           v = PStr (format_token env (secret_aes st1) mt)))
               \<Longrightarrow> \<exists>d sg. sha256_digest env v = Inr d \<and> master_encrypt env d = Inr sg"
      unfolding same using h(5) by blast
    obtain d1 where d1: "is_accept_dict d1"
        "snd (auth_accept env st load i k2 (Some ?k) sm sa ea)
             = (if sm then (case map_of load ''nonce'' of
                              None \<Rightarrow> Inl KeyError
                            | Some n \<Rightarrow> clear_signed env (PDict (AList.update ''nonce'' n d1)) sa)
                else Inr (PDict d1))"
      using accept_body [OF assms(1) acc(1) p r0 e h(4) dg, where i = i and ?k2.0 = k2 and sm = sm]
      by blast
    obtain d2 where d2: "is_accept_dict d2"
        "snd (auth_accept env st1 load i k2 (Some ?k) sm sa ea)
             = (if sm then (case map_of load ''nonce'' of
                              None \<Rightarrow> Inl KeyError
                            | Some n \<Rightarrow> clear_signed env (PDict (AList.update ''nonce'' n d2)) sa)
                else Inr (PDict d2))"
      using accept_body [OF assms(1) acc(1) p r0 e h(4) dg1, where i = i and ?k2.0 = k2 and sm = sm]
      by blast
    have r1: "r1 = (if sm then (case map_of load ''nonce'' of
                              None \<Rightarrow> Inl KeyError
                            | Some n \<Rightarrow> clear_signed env (PDict (AList.update ''nonce'' n d1)) sa)
                else Inr (PDict d1))"
      using d1(2) unfolding acc1 by simp
    have r2: "r2 = (if sm then (case map_of load ''nonce'' of
                              None \<Rightarrow> Inl KeyError
                            | Some n \<Rightarrow> clear_signed env (PDict (AList.update ''nonce'' n d2)) sa)
                else Inr (PDict d2))"
      using d2(2) unfolding acc2 by simp
    show ?thesis
    proof (intro conjI impI allI)
      assume "\<not> sm"
      then show "is_accept_reply r1" "is_accept_reply r2"
        using r1 r2 d1(1) d2(1) by (simp_all add: is_accept_reply_def)
    next
      fix n assume "sm \<and> map_of load ''nonce'' = Some n"
      then have "r1 = clear_signed env (PDict (AList.update ''nonce'' n d1)) sa"
                "r2 = clear_signed env (PDict (AList.update ''nonce'' n d2)) sa"
        using r1 r2 by simp_all
      with d1(1) d2(1)
      show "\<exists>d1 d2. is_accept_dict d1 \<and> is_accept_dict d2 \<and>
                     r1 = clear_signed env (PDict (AList.update ''nonce'' n d1)) sa \<and>
                     r2 = clear_signed env (PDict (AList.update ''nonce'' n d2)) sa"
        by blast
    qed
  qed
  from frames reply show ?thesis by blast
qed

text \<open>
  The theorem on \<open>minion1\<close>, accepted with \<open>PUB1\<close>, presenting \<open>PUB1\<close> twice: in
  an unsigned request, in an unsigned request with a token, and in a signed request.
\<close>

theorem repeated_accept_idempotent_witness:
  "keys accepted_st ''minion1'' = Some \<lparr>pub = PStr ''PUB1'', state = ''accepted''\<rparr> \<and>
   compare_keys demo_env (PStr ''PUB1'') (PStr ''PUB1'') \<and>
   passes_gate demo_env accepted_st ''minion1'' \<and>
   key_stores (fst (auth demo_env accepted_st (auth_load ''minion1'' ''PUB1'') False (PInt 0)))
     = key_stores accepted_st \<and>
   key_stores (fst (auth demo_env
                      (fst (auth demo_env accepted_st (auth_load ''minion1'' ''PUB1'') False
                              (PInt 0)))
                      (auth_load ''minion1'' ''PUB1'') False (PInt 0)))
     = key_stores accepted_st \<and>
   is_accept_reply
     (snd (auth demo_env accepted_st (auth_load ''minion1'' ''PUB1'') False (PInt 0))) \<and>
   is_accept_reply
     (snd (auth demo_env
             (fst (auth demo_env accepted_st (auth_load ''minion1'' ''PUB1'') False (PInt 0)))
             (auth_load ''minion1'' ''PUB1'') False (PInt 0))) \<and>
   is_accept_reply
     (snd (auth demo_env accepted_st (token_auth_load ''minion1'' ''PUB1'' ''OAEP-SHA1'')
             False (PInt 0))) \<and>
   snd (auth demo_env accepted_st (signed_auth_load ''minion1'' ''PUB1'' ''PKCS1v15-SHA1'')
          True (PInt 2))
     = Inr (PDict [(''enc'', PStr ''clear''), (''load'', PBytes ''msgpack''),
                   (''sig'', PBytes ''sig'')])"
proof -
  let ?L = "auth_load ''minion1'' ''PUB1''"
  let ?T = "token_auth_load ''minion1'' ''PUB1'' ''OAEP-SHA1''"
  let ?S = "signed_auth_load ''minion1'' ''PUB1'' ''PKCS1v15-SHA1''"
  let ?run1 = "auth demo_env accepted_st ?L False (PInt 0)"
  let ?run2 = "auth demo_env (fst ?run1) ?L False (PInt 0)"
  let ?trun1 = "auth demo_env accepted_st ?T False (PInt 0)"
  let ?trun2 = "auth demo_env (fst ?trun1) ?T False (PInt 0)"
  let ?srun1 = "auth demo_env accepted_st ?S True (PInt 2)"
  let ?srun2 = "auth demo_env (fst ?srun1) ?S True (PInt 2)"
  have h1: "\<not> open_mode demo_env" by (simp add: demo_env_def)
  have h2: "map_of ?L ''id'' = Some (PStr ''minion1'')" "map_of ?T ''id'' = Some (PStr ''minion1'')"
           "map_of ?S ''id'' = Some (PStr ''minion1'')"
    by (simp_all add: auth_load_def token_auth_load_def signed_auth_load_def)
  have h3: "valid_id demo_env ''minion1''" by code_simp
  have h4: "map_of ?L ''pub'' = Some (PStr ''PUB1'')" "map_of ?T ''pub'' = Some (PStr ''PUB1'')"
           "map_of ?S ''pub'' = Some (PStr ''PUB1'')"
    by (simp_all add: auth_load_def token_auth_load_def signed_auth_load_def)
  have h5: "py_strip (PStr ''PUB1'') = Inr (PStr ''PUB1'')" by code_simp
  have h6: "keys accepted_st ''minion1'' = Some \<lparr>pub = PStr ''PUB1'', state = ''accepted''\<rparr>"
    by (simp add: accepted_st_def demo_st_def)
  have h7: "state \<lparr>pub = PStr ''PUB1'', state = ''accepted''\<rparr> = ''accepted''" by simp
  have h8: "py_strip (pub \<lparr>pub = PStr ''PUB1'', state = ''accepted''\<rparr>) = Inr (PStr ''PUB1'')"
    by code_simp
  have h9: "compare_keys demo_env (PStr ''PUB1'') (PStr ''PUB1'')"
    by (simp add: compare_keys_def demo_env_def py_eq_def py_num_def)
  have h10: "passes_gate demo_env accepted_st ''minion1''"
    by (simp add: passes_gate_def demo_env_def)
  have r: "?run1 = (fst ?run1, snd ?run1)" "?run2 = (fst ?run2, snd ?run2)"
          "?trun1 = (fst ?trun1, snd ?trun1)" "?trun2 = (fst ?trun2, snd ?trun2)"
          "?srun1 = (fst ?srun1, snd ?srun1)" "?srun2 = (fst ?srun2, snd ?srun2)"
    by simp_all
  have g2: "pubkey_from_str demo_env (PStr ''PUB1'') = Inr ''PUB1''"
    by (simp add: demo_env_def)
  have g3: "\<exists>ret0. auth_pub_sig demo_env sa = Inr ret0" for sa
    by (simp add: auth_pub_sig_def demo_env_def)
  have g4: "\<forall>m. \<exists>c. pub_encrypt demo_env ''PUB1'' m (dict_get ?L ''enc_algo'' OAEP_SHA1) = Inr c"
           "\<forall>m. \<exists>c. pub_encrypt demo_env ''PUB1'' m (dict_get ?T ''enc_algo'' OAEP_SHA1) = Inr c"
           "\<forall>m. \<exists>c. pub_encrypt demo_env ''PUB1'' m (dict_get ?S ''enc_algo'' OAEP_SHA1) = Inr c"
    by (simp_all add: demo_env_def auth_load_def token_auth_load_def signed_auth_load_def
          dict_get_def OAEP_SHA1_def)
  have g1: "map_of ?L ''token'' = None" "map_of ?S ''token'' = None"
    by (simp_all add: auth_load_def signed_auth_load_def)
  have g1t: "\<exists>tok mt. map_of ?T ''token'' = Some tok \<and>
                master_decrypt_tok demo_env tok (dict_get ?T ''enc_algo'' OAEP_SHA1) = Inr mt"
    by (simp add: token_auth_load_def demo_env_def)
  have g5: "\<forall>v. v = PBytes (aes_key demo_env accepted_st) \<or>
                (2 \<le> auth_mode demo_env \<and> P v)
               \<longrightarrow> (\<exists>d sg. sha256_digest demo_env v = Inr d \<and> master_encrypt demo_env d = Inr sg)"
    for P
    by (simp add: demo_env_def)
  have n: "map_of ?S ''nonce'' = Some (PStr ''n1'')"
    by (simp add: signed_auth_load_def)
  have cs: "clear_signed demo_env x (dict_get ?S ''sig_algo'' PKCS1v15_SHA1)
              = Inr (PDict [(''enc'', PStr ''clear''), (''load'', PBytes ''msgpack''),
                            (''sig'', PBytes ''sig'')])" for x
    by (simp add: clear_signed_def demo_env_def signed_auth_load_def dict_get_def)
  note t = repeated_accept_idempotent [OF h1 h2(1) h3 h4(1) h5 h6 h7 h8 h9 h10 r(1) r(2)
      refl refl, where pk = "''PUB1''"]
  note tt = repeated_accept_idempotent [OF h1 h2(2) h3 h4(2) h5 h6 h7 h8 h9 h10 r(3) r(4)
      refl refl, where pk = "''PUB1''"]
  note ts = repeated_accept_idempotent [OF h1 h2(3) h3 h4(3) h5 h6 h7 h8 h9 h10 r(5) r(6)
      refl refl, where pk = "''PUB1''"]
  from t have a: "key_stores (fst ?run1) = key_stores accepted_st"
    and b: "key_stores (fst ?run2) = key_stores accepted_st"
    by blast+
  from t g1(1) g2 g3 g4(1) g5 have c: "is_accept_reply (snd ?run1) \<and> is_accept_reply (snd ?run2)"
    by blast
  from tt g1t g2 g3 g4(2) g5 have ct: "is_accept_reply (snd ?trun1)"
    by blast
  from ts g1(2) g2 g3 g4(3) g5 n
  have "\<exists>d1. snd ?srun1 = clear_signed demo_env (PDict (AList.update ''nonce'' (PStr ''n1'') d1))
                             (dict_get ?S ''sig_algo'' PKCS1v15_SHA1)"
    by blast
  then have s: "snd ?srun1 = Inr (PDict [(''enc'', PStr ''clear''), (''load'', PBytes ''msgpack''),
                                        (''sig'', PBytes ''sig'')])"
    unfolding cs by blast
  from h6 h9 h10 a b c ct s show ?thesis by blast
qed

text \<open>
  Claim C6 as stated fails when the \<^verbatim>\<open>max_minions\<close> gate fires first: with a cap of 1,
  two other minions connected and \<open>minion1\<close> not among them, the accepted minion that
  presents its own key is answered \<^verbatim>\<open>full\<close>, which is not an accept reply. It also
  fails when the stored key does not parse (the reply is \<^verbatim>\<open>ret: False\<close>), and when the
  request carries a token and asks for an encryption algorithm the master does not support
  (the reply is \<^verbatim>\<open>ret: "bad enc algo"\<close>).
\<close>

theorem repeated_accept_full_counterexample:
  "keys accepted_st ''minion1'' = Some \<lparr>pub = PStr ''PUB1'', state = ''accepted''\<rparr> \<and>
   snd (handle_message (capped_env 1) accepted_st (auth_msg ''minion1'' ''PUB1''))
     = Inr (PDict [(''enc'', PStr ''clear''), (''load'', PDict [(''ret'', PStr ''full'')])]) \<and>
   \<not> is_accept_reply
         (snd (handle_message (capped_env 1) accepted_st (auth_msg ''minion1'' ''PUB1''))) \<and>
   keys corrupt_st ''minion1'' = Some \<lparr>pub = PStr [], state = ''accepted''\<rparr> \<and>
   snd (handle_message demo_env corrupt_st (auth_msg ''minion1'' []))
     = Inr (PDict [(''enc'', PStr ''clear''), (''load'', PDict [(''ret'', PBool False)])]) \<and>
   snd (handle_message demo_env accepted_st (token_auth_msg ''minion1'' ''PUB1'' ''bogus''))
     = Inr (PDict [(''enc'', PStr ''clear''),
                   (''load'', PDict [(''ret'', PStr ''bad enc algo'')])])"
  by code_simp

end
